theory Spec2Isabelle
  imports Main "HOL-Library.Word"
begin

unbundle bit_operations_syntax

section \<open>Bytes and byte order\<close>

text \<open>
  Memory is a list of bytes. Unsigned machine integers are natural numbers below their
  modulus, signed ones are integers, and every wrap-around the C performs is written
  out. The host is little-endian (the source's own notes speak of x86_64), so a plain
  load of a 16/32/64-bit field reads the lowest byte first. A load outside the list
  reads 0; the C checks its bounds before it reads, and so do the definitions below.
\<close>

type_synonym byte = "8 word"

definition peek :: "byte list \<Rightarrow> nat \<Rightarrow> nat" where
  "peek bs i = (if i < length bs then unat (bs ! i) else 0)"

definition load16 :: "byte list \<Rightarrow> nat \<Rightarrow> nat" where
  "load16 bs off = peek bs off + 256 * peek bs (off + 1)"

definition load32 :: "byte list \<Rightarrow> nat \<Rightarrow> nat" where
  "load32 bs off = load16 bs off + 65536 * load16 bs (off + 2)"

definition load64 :: "byte list \<Rightarrow> nat \<Rightarrow> nat" where
  "load64 bs off = load32 bs off + 4294967296 * load32 bs (off + 4)"

definition put_u8 :: "nat \<Rightarrow> byte list" where
  "put_u8 x = [of_nat (x mod 256)]"

definition put_u16 :: "nat \<Rightarrow> byte list" where
  "put_u16 x = [of_nat (x mod 256), of_nat (x div 256 mod 256)]"

definition put_u32 :: "nat \<Rightarrow> byte list" where
  "put_u32 x = put_u16 (x mod 65536) @ put_u16 (x div 65536 mod 65536)"

text \<open>\<open>memcpy\<close>/\<open>memset\<close> into a buffer at an offset. Writing past the end extends
  the part of the buffer that the model holds; bytes skipped on the way are 0.\<close>

definition write_at :: "byte list \<Rightarrow> nat \<Rightarrow> byte list \<Rightarrow> byte list" where
  "write_at buf off bs =
     take off (buf @ replicate (off - length buf) 0) @ bs @ drop (off + length bs) buf"

text \<open>Byte swaps of a little-endian host.\<close>

definition htons :: "nat \<Rightarrow> nat" where
  "htons x = (x mod 256) * 256 + x div 256 mod 256"

definition ntohs :: "nat \<Rightarrow> nat" where
  "ntohs x = htons x"

definition htonl :: "nat \<Rightarrow> nat" where
  "htonl x = htons (x mod 65536) * 65536 + htons (x div 65536 mod 65536)"

definition ntohl :: "nat \<Rightarrow> nat" where
  "ntohl x = htonl x"

definition be64_to_cpu :: "nat \<Rightarrow> nat" where
  "be64_to_cpu x = htonl (x mod 4294967296) * 4294967296 + htonl (x div 4294967296 mod 4294967296)"

text \<open>Conversions between C integer types: to \<open>uintN_t\<close> is reduction modulo \<open>2^N\<close>,
  to \<open>int\<close> (32 bit) and \<open>long\<close> (64 bit) is the two's-complement reading.\<close>

definition to_u16 :: "int \<Rightarrow> nat" where
  "to_u16 x = nat (x mod 65536)"

definition to_u32 :: "int \<Rightarrow> nat" where
  "to_u32 x = nat (x mod 4294967296)"

definition to_int :: "int \<Rightarrow> int" where
  "to_int x = (x + 2147483648) mod 4294967296 - 2147483648"

definition to_long :: "int \<Rightarrow> int" where
  "to_long x = (x + 9223372036854775808) mod 18446744073709551616 - 9223372036854775808"

section \<open>Constants of the kernel and libmnl headers\<close>

text \<open>
  The values are those of the Linux and libmnl headers that the source includes.
  \<open>NFQA_MAX\<close> and \<open>CTA_MAX\<close> grow with the kernel; they are given as in the headers of the
  source's time (\<open>NFQA_L2HDR\<close> = 20 and \<open>CTA_SYNPROXY\<close> = 24 are the last codes), and every
  code that the source names lies below them.
\<close>

definition IPV4 :: int where "IPV4 = 4"
definition IPV6 :: int where "IPV6 = 6"

definition IO_ERROR :: int where "IO_ERROR = - 1"
definition IO_NOTREADY :: int where "IO_NOTREADY = 0"
definition IO_READY :: int where "IO_READY = 1"

definition BUF_TOO_SHORT :: int where "BUF_TOO_SHORT = - 42"
definition ENOBUFS :: int where "ENOBUFS = 105"

definition AF_UNSPEC :: nat where "AF_UNSPEC = 0"
definition AF_INET :: int where "AF_INET = 2"
definition AF_INET6 :: int where "AF_INET6 = 10"

definition NFNETLINK_V0 :: nat where "NFNETLINK_V0 = 0"
definition NFNL_SUBSYS_QUEUE :: int where "NFNL_SUBSYS_QUEUE = 3"
definition NLM_F_REQUEST :: nat where "NLM_F_REQUEST = 1"
definition NLM_F_DUMP_INTR :: nat where "NLM_F_DUMP_INTR = 16"
definition NLMSG_MIN_TYPE :: nat where "NLMSG_MIN_TYPE = 16"

definition NFQNL_MSG_PACKET :: int where "NFQNL_MSG_PACKET = 0"
definition NFQNL_MSG_VERDICT :: int where "NFQNL_MSG_VERDICT = 1"
definition NFQNL_MSG_CONFIG :: int where "NFQNL_MSG_CONFIG = 2"

definition NFQNL_CFG_CMD_BIND :: nat where "NFQNL_CFG_CMD_BIND = 1"
definition NFQNL_COPY_PACKET :: nat where "NFQNL_COPY_PACKET = 2"
definition NFQA_CFG_F_CONNTRACK :: nat where "NFQA_CFG_F_CONNTRACK = 2"

definition NFQA_CFG_CMD :: nat where "NFQA_CFG_CMD = 1"
definition NFQA_CFG_PARAMS :: nat where "NFQA_CFG_PARAMS = 2"
definition NFQA_CFG_QUEUE_MAXLEN :: nat where "NFQA_CFG_QUEUE_MAXLEN = 3"
definition NFQA_CFG_MASK :: nat where "NFQA_CFG_MASK = 4"
definition NFQA_CFG_FLAGS :: nat where "NFQA_CFG_FLAGS = 5"

definition NFQA_PACKET_HDR :: nat where "NFQA_PACKET_HDR = 1"
definition NFQA_VERDICT_HDR :: nat where "NFQA_VERDICT_HDR = 2"
definition NFQA_MARK :: nat where "NFQA_MARK = 3"
definition NFQA_TIMESTAMP :: nat where "NFQA_TIMESTAMP = 4"
definition NFQA_IFINDEX_INDEV :: nat where "NFQA_IFINDEX_INDEV = 5"
definition NFQA_IFINDEX_OUTDEV :: nat where "NFQA_IFINDEX_OUTDEV = 6"
definition NFQA_IFINDEX_PHYSINDEV :: nat where "NFQA_IFINDEX_PHYSINDEV = 7"
definition NFQA_IFINDEX_PHYSOUTDEV :: nat where "NFQA_IFINDEX_PHYSOUTDEV = 8"
definition NFQA_HWADDR :: nat where "NFQA_HWADDR = 9"
definition NFQA_PAYLOAD :: nat where "NFQA_PAYLOAD = 10"
definition NFQA_CT :: nat where "NFQA_CT = 11"
definition NFQA_CT_INFO :: nat where "NFQA_CT_INFO = 12"
definition NFQA_CAP_LEN :: nat where "NFQA_CAP_LEN = 13"
definition NFQA_SKB_INFO :: nat where "NFQA_SKB_INFO = 14"
definition NFQA_EXP :: nat where "NFQA_EXP = 15"
definition NFQA_UID :: nat where "NFQA_UID = 16"
definition NFQA_GID :: nat where "NFQA_GID = 17"
definition NFQA_SECCTX :: nat where "NFQA_SECCTX = 18"
definition NFQA_MAX :: nat where "NFQA_MAX = 20"

definition CTA_TUPLE_ORIG :: nat where "CTA_TUPLE_ORIG = 1"
definition CTA_TUPLE_REPLY :: nat where "CTA_TUPLE_REPLY = 2"
definition CTA_STATUS :: nat where "CTA_STATUS = 3"
definition CTA_TIMEOUT :: nat where "CTA_TIMEOUT = 7"
definition CTA_MARK :: nat where "CTA_MARK = 8"
definition CTA_COUNTERS_ORIG :: nat where "CTA_COUNTERS_ORIG = 9"
definition CTA_COUNTERS_REPLY :: nat where "CTA_COUNTERS_REPLY = 10"
definition CTA_ID :: nat where "CTA_ID = 12"
definition CTA_SECMARK :: nat where "CTA_SECMARK = 17"
definition CTA_MAX :: nat where "CTA_MAX = 24"

definition CTA_TUPLE_IP :: nat where "CTA_TUPLE_IP = 1"
definition CTA_TUPLE_PROTO :: nat where "CTA_TUPLE_PROTO = 2"
definition CTA_TUPLE_MAX :: nat where "CTA_TUPLE_MAX = 3"

definition CTA_IP_V4_SRC :: nat where "CTA_IP_V4_SRC = 1"
definition CTA_IP_V4_DST :: nat where "CTA_IP_V4_DST = 2"
definition CTA_IP_V6_SRC :: nat where "CTA_IP_V6_SRC = 3"
definition CTA_IP_V6_DST :: nat where "CTA_IP_V6_DST = 4"
definition CTA_IP_MAX :: nat where "CTA_IP_MAX = 4"

definition CTA_PROTO_NUM :: nat where "CTA_PROTO_NUM = 1"
definition CTA_PROTO_SRC_PORT :: nat where "CTA_PROTO_SRC_PORT = 2"
definition CTA_PROTO_DST_PORT :: nat where "CTA_PROTO_DST_PORT = 3"
definition CTA_PROTO_ICMP_ID :: nat where "CTA_PROTO_ICMP_ID = 4"
definition CTA_PROTO_ICMP_TYPE :: nat where "CTA_PROTO_ICMP_TYPE = 5"
definition CTA_PROTO_ICMP_CODE :: nat where "CTA_PROTO_ICMP_CODE = 6"
definition CTA_PROTO_MAX :: nat where "CTA_PROTO_MAX = 9"

definition NLA_F_NESTED :: nat where "NLA_F_NESTED = 32768"
definition NLA_TYPE_MASK :: nat where "NLA_TYPE_MASK = 16383"

definition MNL_CB_ERROR :: int where "MNL_CB_ERROR = - 1"
definition MNL_CB_STOP :: int where "MNL_CB_STOP = 0"
definition MNL_CB_OK :: int where "MNL_CB_OK = 1"

definition MNL_NLMSG_HDRLEN :: nat where "MNL_NLMSG_HDRLEN = 16"
definition MNL_ATTR_HDRLEN :: nat where "MNL_ATTR_HDRLEN = 4"

text \<open>Sizes of the wire structures that the parser checks (\<open>sizeof\<close>): \<open>nfgenmsg\<close>, the
  packed packet metaheader, the timestamp, the hardware address and an IPv6 address.\<close>

definition sizeof_nfgenmsg :: nat where "sizeof_nfgenmsg = 4"
definition sizeof_nfqnl_msg_packet_hdr :: nat where "sizeof_nfqnl_msg_packet_hdr = 7"
definition sizeof_nfqnl_msg_packet_timestamp :: nat where "sizeof_nfqnl_msg_packet_timestamp = 16"
definition sizeof_nfqnl_msg_packet_hw :: nat where "sizeof_nfqnl_msg_packet_hw = 12"
definition sizeof_in6_addr :: nat where "sizeof_in6_addr = 16"

section \<open>libmnl: messages\<close>

text \<open>
  libmnl is an external library; the functions the source calls are written here as
  libmnl 1.0.4 defines them (\<open>nlmsg.c\<close>, \<open>attr.c\<close>). A \<open>struct nlmsghdr *\<close> is the
  list of bytes from the pointer to the end of the buffer; its fields are loads at the
  offsets of the structure (\<open>nlmsg_len\<close>: 32 bits at 0, \<open>nlmsg_type\<close>: 16 bits at 4,
  \<open>nlmsg_flags\<close>: 16 bits at 6).
\<close>

definition MNL_ALIGN :: "nat \<Rightarrow> nat" where
  "MNL_ALIGN n = (n + 3) div 4 * 4"

text \<open>\<open>MNL_ALIGN\<close> applied to a \<open>uint32_t\<close>: the sum wraps at 32 bits.\<close>

definition MNL_ALIGN_u32 :: "nat \<Rightarrow> nat" where
  "MNL_ALIGN_u32 n = MNL_ALIGN n mod 4294967296"

definition nlmsg_len :: "byte list \<Rightarrow> nat" where
  "nlmsg_len nlh = load32 nlh 0"

definition nlmsg_type :: "byte list \<Rightarrow> nat" where
  "nlmsg_type nlh = load16 nlh 4"

definition nlmsg_flags :: "byte list \<Rightarrow> nat" where
  "nlmsg_flags nlh = load16 nlh 6"

definition mnl_nlmsg_ok :: "byte list \<Rightarrow> int \<Rightarrow> bool" where
  "mnl_nlmsg_ok nlh len \<longleftrightarrow>
     len \<ge> 16 \<and> nlmsg_len nlh \<ge> 16 \<and> to_int (int (nlmsg_len nlh)) \<le> len"

definition mnl_nlmsg_get_payload :: "byte list \<Rightarrow> byte list" where
  "mnl_nlmsg_get_payload nlh = drop MNL_NLMSG_HDRLEN nlh"

section \<open>libmnl: attributes\<close>

text \<open>
  A \<open>struct nlattr *\<close> is the list of the attribute's bytes: \<open>nla_len\<close> (16 bits at 0),
  \<open>nla_type\<close> (16 bits at 2), then the payload. An attribute table (\<open>tb\<close>) maps a type
  code to the attribute stored under it; \<open>None\<close> is the \<open>NULL\<close> entry.
\<close>

type_synonym nlattr = "byte list"
type_synonym attr_tb = "nat \<Rightarrow> nlattr option"

definition nla_len :: "nlattr \<Rightarrow> nat" where
  "nla_len attr = load16 attr 0"

definition nla_type :: "nlattr \<Rightarrow> nat" where
  "nla_type attr = load16 attr 2"

definition mnl_attr_get_type :: "nlattr \<Rightarrow> nat" where
  "mnl_attr_get_type attr = nla_type attr AND NLA_TYPE_MASK"

definition mnl_attr_get_payload :: "nlattr \<Rightarrow> byte list" where
  "mnl_attr_get_payload attr = drop MNL_ATTR_HDRLEN attr"

text \<open>The result is a \<open>uint16_t\<close>.\<close>

definition mnl_attr_get_payload_len :: "nlattr \<Rightarrow> nat" where
  "mnl_attr_get_payload_len attr = to_u16 (int (nla_len attr) - int MNL_ATTR_HDRLEN)"

definition mnl_attr_ok :: "byte list \<Rightarrow> int \<Rightarrow> bool" where
  "mnl_attr_ok attr len \<longleftrightarrow> len \<ge> 4 \<and> nla_len attr \<ge> 4 \<and> int (nla_len attr) \<le> len"

definition mnl_attr_type_valid :: "nlattr \<Rightarrow> nat \<Rightarrow> int" where
  "mnl_attr_type_valid attr maxtype = (if mnl_attr_get_type attr > maxtype then - 1 else 1)"

datatype mnl_attr_data_type =
    MNL_TYPE_UNSPEC | MNL_TYPE_U8 | MNL_TYPE_U16 | MNL_TYPE_U32 | MNL_TYPE_U64
  | MNL_TYPE_STRING | MNL_TYPE_FLAG | MNL_TYPE_MSECS | MNL_TYPE_NESTED
  | MNL_TYPE_NESTED_COMPAT | MNL_TYPE_NUL_STRING | MNL_TYPE_BINARY

fun mnl_attr_data_type_len :: "mnl_attr_data_type \<Rightarrow> nat" where
  "mnl_attr_data_type_len MNL_TYPE_U8 = 1"
| "mnl_attr_data_type_len MNL_TYPE_U16 = 2"
| "mnl_attr_data_type_len MNL_TYPE_U32 = 4"
| "mnl_attr_data_type_len MNL_TYPE_U64 = 8"
| "mnl_attr_data_type_len MNL_TYPE_MSECS = 8"
| "mnl_attr_data_type_len _ = 0"

text \<open>\<open>__mnl_attr_validate\<close>: 0 when the payload length fits the type, \<open>-1\<close> otherwise.\<close>

definition mnl_attr_validate_len :: "nlattr \<Rightarrow> mnl_attr_data_type \<Rightarrow> nat \<Rightarrow> int" where
  "mnl_attr_validate_len attr ty exp_len =
     (let attr_len = mnl_attr_get_payload_len attr;
          attr_data = mnl_attr_get_payload attr
      in if attr_len < exp_len then - 1
         else if ty = MNL_TYPE_FLAG \<and> attr_len > 0 then - 1
         else if ty = MNL_TYPE_NUL_STRING \<and> attr_len = 0 then - 1
         else if ty = MNL_TYPE_NUL_STRING \<and> peek attr_data (attr_len - 1) \<noteq> 0 then - 1
         else if ty = MNL_TYPE_STRING \<and> attr_len = 0 then - 1
         else if ty = MNL_TYPE_NESTED \<and> attr_len \<noteq> 0 \<and> attr_len < MNL_ATTR_HDRLEN then - 1
         else if exp_len \<noteq> 0 \<and> attr_len > exp_len then - 1
         else 0)"

definition mnl_attr_validate :: "nlattr \<Rightarrow> mnl_attr_data_type \<Rightarrow> int" where
  "mnl_attr_validate attr ty = mnl_attr_validate_len attr ty (mnl_attr_data_type_len ty)"

definition mnl_attr_validate2 :: "nlattr \<Rightarrow> mnl_attr_data_type \<Rightarrow> nat \<Rightarrow> int" where
  "mnl_attr_validate2 attr ty exp_len = mnl_attr_validate_len attr ty exp_len"

text \<open>
  The loop of \<open>mnl_attr_parse\<close> and \<open>mnl_attr_parse_nested\<close>. \<open>bs\<close> are the bytes from the
  current attribute on, and \<open>len\<close> is what \<open>mnl_attr_ok\<close> is given: the distance from the
  attribute to the end of the region, a pointer difference converted to \<open>int\<close>. While
  \<open>mnl_attr_ok\<close>, the loop calls the callback on the attribute, stops when it returns
  \<open>MNL_CB_STOP\<close> or less, and else steps by the aligned length of the attribute, which
  shortens the distance by as much (by at most 65536, from a distance of at least 4: the
  conversion to \<open>int\<close> does not wrap). \<open>ret\<close> is the result of the last callback.
\<close>

function mnl_attr_for_each ::
  "(nlattr \<Rightarrow> attr_tb \<Rightarrow> int \<times> attr_tb) \<Rightarrow> byte list \<Rightarrow> int \<Rightarrow> int \<Rightarrow> attr_tb \<Rightarrow> int \<times> attr_tb"
  where
  "mnl_attr_for_each cb bs len ret tb =
     (if mnl_attr_ok bs len then
        (case cb (take (nla_len bs) bs) tb of
           (r, tb') \<Rightarrow>
             if r \<le> MNL_CB_STOP then (r, tb')
             else mnl_attr_for_each cb (drop (MNL_ALIGN (nla_len bs)) bs)
                    (len - int (MNL_ALIGN (nla_len bs))) r tb')
      else (ret, tb))"
  by pat_completeness auto
termination
  by (relation "measure (\<lambda>(cb, bs, len, ret, tb). nat len)")
     (auto simp: mnl_attr_ok_def MNL_ALIGN_def)

text \<open>
  The attributes of a message start after the header and the aligned extra header, at
  \<open>nlh + MNL_NLMSG_HDRLEN + MNL_ALIGN(offset)\<close>, and end at the payload tail,
  \<open>nlh + MNL_ALIGN(nlh->nlmsg_len)\<close>. The first distance is the difference of the two,
  converted to \<open>int\<close>: it is negative for a length field of \<open>2^31 + 20\<close> or more, and then
  no attribute is read.
\<close>

definition mnl_attr_parse ::
  "byte list \<Rightarrow> nat \<Rightarrow> (nlattr \<Rightarrow> attr_tb \<Rightarrow> int \<times> attr_tb) \<Rightarrow> attr_tb \<Rightarrow> int \<times> attr_tb" where
  "mnl_attr_parse nlh offset cb tb =
     mnl_attr_for_each cb
       (drop (MNL_NLMSG_HDRLEN + MNL_ALIGN offset) nlh)
       (to_int (int (MNL_ALIGN_u32 (nlmsg_len nlh)) - int (MNL_NLMSG_HDRLEN + MNL_ALIGN offset)))
       MNL_CB_OK tb"

text \<open>The attributes of a nested attribute fill its payload.\<close>

definition mnl_attr_parse_nested ::
  "nlattr \<Rightarrow> (nlattr \<Rightarrow> attr_tb \<Rightarrow> int \<times> attr_tb) \<Rightarrow> attr_tb \<Rightarrow> int \<times> attr_tb" where
  "mnl_attr_parse_nested nested cb tb =
     mnl_attr_for_each cb
       (mnl_attr_get_payload nested) (int (mnl_attr_get_payload_len nested))
       MNL_CB_OK tb"

text \<open>The source replaces libmnl's \<open>mnl_attr_get_u16\<close> and \<open>mnl_attr_get_u32\<close> by
  \<open>memcpy\<close>-based versions.\<close>

definition fixed_attr_get_u16 :: "nlattr \<Rightarrow> nat" where
  "fixed_attr_get_u16 attr = load16 (mnl_attr_get_payload attr) 0"

definition fixed_attr_get_u32 :: "nlattr \<Rightarrow> nat" where
  "fixed_attr_get_u32 attr = load32 (mnl_attr_get_payload attr) 0"

section \<open>NFQA and CTA attribute callbacks\<close>

definition parse_nfqa_attr_cb :: "nlattr \<Rightarrow> attr_tb \<Rightarrow> int \<times> attr_tb" where
  "parse_nfqa_attr_cb attr tb =
     (let type = mnl_attr_get_type attr
      in if mnl_attr_type_valid attr NFQA_MAX < 0 then (MNL_CB_OK, tb)
         else if type \<in> {NFQA_MARK, NFQA_IFINDEX_INDEV, NFQA_IFINDEX_OUTDEV,
                          NFQA_IFINDEX_PHYSINDEV, NFQA_IFINDEX_PHYSOUTDEV, NFQA_CAP_LEN,
                          NFQA_SKB_INFO, NFQA_SECCTX, NFQA_UID, NFQA_GID, NFQA_CT_INFO}
                 \<and> mnl_attr_validate attr MNL_TYPE_U32 < 0 then (MNL_CB_ERROR, tb)
         else if type = NFQA_TIMESTAMP
                 \<and> mnl_attr_validate2 attr MNL_TYPE_UNSPEC sizeof_nfqnl_msg_packet_timestamp < 0
              then (MNL_CB_ERROR, tb)
         else if type = NFQA_HWADDR
                 \<and> mnl_attr_validate2 attr MNL_TYPE_UNSPEC sizeof_nfqnl_msg_packet_hw < 0
              then (MNL_CB_ERROR, tb)
         else if type = NFQA_PACKET_HDR
                 \<and> mnl_attr_validate2 attr MNL_TYPE_UNSPEC sizeof_nfqnl_msg_packet_hdr < 0
              then (MNL_CB_ERROR, tb)
         else (MNL_CB_OK, tb(type \<mapsto> attr)))"

definition parse_cta_attr_cb :: "nlattr \<Rightarrow> attr_tb \<Rightarrow> int \<times> attr_tb" where
  "parse_cta_attr_cb attr tb =
     (let type = mnl_attr_get_type attr
      in if mnl_attr_type_valid attr CTA_MAX < 0 then (MNL_CB_OK, tb)
         else if type \<in> {CTA_TUPLE_ORIG, CTA_TUPLE_REPLY, CTA_COUNTERS_ORIG, CTA_COUNTERS_REPLY}
                 \<and> mnl_attr_validate attr MNL_TYPE_NESTED < 0 then (MNL_CB_ERROR, tb)
         else if type \<in> {CTA_STATUS, CTA_TIMEOUT, CTA_MARK, CTA_SECMARK, CTA_ID}
                 \<and> mnl_attr_validate attr MNL_TYPE_U32 < 0 then (MNL_CB_ERROR, tb)
         else (MNL_CB_OK, tb(type \<mapsto> attr)))"

definition parse_tuple_cb :: "nlattr \<Rightarrow> attr_tb \<Rightarrow> int \<times> attr_tb" where
  "parse_tuple_cb attr tb =
     (let type = mnl_attr_get_type attr
      in if mnl_attr_type_valid attr CTA_TUPLE_MAX < 0 then (MNL_CB_OK, tb)
         else if type = CTA_TUPLE_IP \<and> mnl_attr_validate attr MNL_TYPE_NESTED < 0
              then (MNL_CB_ERROR, tb)
         else if type = CTA_TUPLE_PROTO \<and> mnl_attr_validate attr MNL_TYPE_NESTED < 0
              then (MNL_CB_ERROR, tb)
         else (MNL_CB_OK, tb(type \<mapsto> attr)))"

definition parse_ip_cb :: "nlattr \<Rightarrow> attr_tb \<Rightarrow> int \<times> attr_tb" where
  "parse_ip_cb attr tb =
     (let type = mnl_attr_get_type attr
      in if mnl_attr_type_valid attr CTA_IP_MAX < 0 then (MNL_CB_OK, tb)
         else if type \<in> {CTA_IP_V4_SRC, CTA_IP_V4_DST}
                 \<and> mnl_attr_validate attr MNL_TYPE_U32 < 0 then (MNL_CB_ERROR, tb)
         else if type \<in> {CTA_IP_V6_SRC, CTA_IP_V6_DST}
                 \<and> mnl_attr_validate2 attr MNL_TYPE_BINARY sizeof_in6_addr < 0
              then (MNL_CB_ERROR, tb)
         else (MNL_CB_OK, tb(type \<mapsto> attr)))"

definition parse_proto_cb :: "nlattr \<Rightarrow> attr_tb \<Rightarrow> int \<times> attr_tb" where
  "parse_proto_cb attr tb =
     (let type = mnl_attr_get_type attr
      in if mnl_attr_type_valid attr CTA_PROTO_MAX < 0 then (MNL_CB_OK, tb)
         else if type \<in> {CTA_PROTO_NUM, CTA_PROTO_ICMP_TYPE, CTA_PROTO_ICMP_CODE}
                 \<and> mnl_attr_validate attr MNL_TYPE_U8 < 0 then (MNL_CB_ERROR, tb)
         else if type \<in> {CTA_PROTO_SRC_PORT, CTA_PROTO_DST_PORT, CTA_PROTO_ICMP_ID}
                 \<and> mnl_attr_validate attr MNL_TYPE_U16 < 0 then (MNL_CB_ERROR, tb)
         else (MNL_CB_OK, tb(type \<mapsto> attr)))"

section \<open>libmnl: building a message\<close>

text \<open>
  A message under construction is the list of the bytes written so far, from the start
  of the scratch buffer; \<open>malloc\<close> hands the buffer over with nothing written. libmnl
  writes at the payload tail only, so the list grows at its end, and the header fields
  are stores at their offsets.
\<close>

definition set_nlmsg_len :: "nat \<Rightarrow> byte list \<Rightarrow> byte list" where
  "set_nlmsg_len v nlh = write_at nlh 0 (put_u32 v)"

definition set_nlmsg_type :: "nat \<Rightarrow> byte list \<Rightarrow> byte list" where
  "set_nlmsg_type v nlh = write_at nlh 4 (put_u16 v)"

definition set_nlmsg_flags :: "nat \<Rightarrow> byte list \<Rightarrow> byte list" where
  "set_nlmsg_flags v nlh = write_at nlh 6 (put_u16 v)"

text \<open>\<open>MNL_ALIGN\<close> applied to a \<open>size_t\<close>: the sum wraps at 64 bits.\<close>

definition MNL_ALIGN_size :: "nat \<Rightarrow> nat" where
  "MNL_ALIGN_size n = MNL_ALIGN n mod 18446744073709551616"

definition mnl_nlmsg_put_header :: "byte list \<Rightarrow> byte list" where
  "mnl_nlmsg_put_header buf =
     (let len = MNL_ALIGN 16;
          nlh = write_at buf 0 (replicate len 0)
      in set_nlmsg_len len nlh)"

text \<open>Returns the message and the offset of the extra header in it.\<close>

definition mnl_nlmsg_put_extra_header :: "byte list \<Rightarrow> nat \<Rightarrow> byte list \<times> nat" where
  "mnl_nlmsg_put_extra_header nlh size' =
     (let ptr = nlmsg_len nlh;
          len = MNL_ALIGN_size size';
          nlh = set_nlmsg_len ((nlmsg_len nlh + len) mod 4294967296) nlh;
          nlh = write_at nlh ptr (replicate len 0)
      in (nlh, ptr))"

definition mnl_attr_put :: "byte list \<Rightarrow> nat \<Rightarrow> nat \<Rightarrow> byte list \<Rightarrow> byte list" where
  "mnl_attr_put nlh type len data =
     (let attr = MNL_ALIGN_u32 (nlmsg_len nlh);
          payload_len = to_u16 (int (MNL_ALIGN 4 + len));
          nlh = write_at nlh (attr + 2) (put_u16 type);
          nlh = write_at nlh attr (put_u16 payload_len);
          nlh = write_at nlh (attr + MNL_ATTR_HDRLEN) (take len data);
          pad = MNL_ALIGN_size len - len;
          nlh = (if pad > 0 then write_at nlh (attr + MNL_ATTR_HDRLEN + len) (replicate pad 0)
                 else nlh)
      in set_nlmsg_len ((nlmsg_len nlh + MNL_ALIGN payload_len) mod 4294967296) nlh)"

definition mnl_attr_put_check ::
  "byte list \<Rightarrow> nat \<Rightarrow> nat \<Rightarrow> nat \<Rightarrow> byte list \<Rightarrow> bool \<times> byte list" where
  "mnl_attr_put_check nlh buflen type len data =
     (if (nlmsg_len nlh + MNL_ATTR_HDRLEN + MNL_ALIGN_size len) mod 18446744073709551616 > buflen
      then (False, nlh)
      else (True, mnl_attr_put nlh type len data))"

definition mnl_attr_put_u32_check ::
  "byte list \<Rightarrow> nat \<Rightarrow> nat \<Rightarrow> nat \<Rightarrow> bool \<times> byte list" where
  "mnl_attr_put_u32_check nlh buflen type data =
     mnl_attr_put_check nlh buflen type 4 (put_u32 data)"

text \<open>\<open>mnl_attr_nest_start\<close> writes the type of the nest only; its length field is
  written by \<open>mnl_attr_nest_end\<close>. The result is the message and the offset of the
  nest; in the checked variant \<open>None\<close> is \<open>NULL\<close>.\<close>

definition mnl_attr_nest_start :: "byte list \<Rightarrow> nat \<Rightarrow> byte list \<times> nat" where
  "mnl_attr_nest_start nlh type =
     (let start = MNL_ALIGN_u32 (nlmsg_len nlh);
          nlh = write_at nlh (start + 2) (put_u16 (NLA_F_NESTED OR type));
          nlh = set_nlmsg_len ((nlmsg_len nlh + MNL_ALIGN 4) mod 4294967296) nlh
      in (nlh, start))"

definition mnl_attr_nest_start_check :: "byte list \<Rightarrow> nat \<Rightarrow> nat \<Rightarrow> (byte list \<times> nat) option" where
  "mnl_attr_nest_start_check nlh buflen type =
     (if nlmsg_len nlh + MNL_ATTR_HDRLEN > buflen then None
      else Some (mnl_attr_nest_start nlh type))"

definition mnl_attr_nest_end :: "byte list \<Rightarrow> nat \<Rightarrow> byte list" where
  "mnl_attr_nest_end nlh start =
     write_at nlh start
       (put_u16 (to_u16 (int (MNL_ALIGN_u32 (nlmsg_len nlh)) - int start)))"

section \<open>Sending Netlink commands\<close>

text \<open>
  The socket is the kernel's answer to a datagram: \<open>None\<close> when it takes it, \<open>Some e\<close>
  when the send fails with \<open>errno = e\<close>. The state a command runs in holds the datagrams
  handed to \<open>mnl_socket_sendto\<close> so far (one entry per call) and \<open>errno\<close>.
  \<open>SEND_BUF_LEN\<close> is \<open>MNL_SOCKET_BUFFER_SIZE\<close>, which libmnl takes from the page size; it
  is a parameter of every command. \<open>malloc\<close> is taken to succeed (the source asserts it).
\<close>

type_synonym mnl_socket = "byte list \<Rightarrow> int option"

record io =
  sent :: "byte list list"
  errno :: int

definition mnl_socket_sendto :: "mnl_socket \<Rightarrow> byte list \<Rightarrow> nat \<Rightarrow> io \<Rightarrow> int \<times> io" where
  "mnl_socket_sendto nl buf len st =
     (let st = st\<lparr>sent := sent st @ [take len buf]\<rparr>
      in case nl (take len buf) of
           None \<Rightarrow> (int len, st)
         | Some e \<Rightarrow> (- 1, st\<lparr>errno := e\<rparr>))"

definition nfqueue_put_header :: "nat \<Rightarrow> int \<Rightarrow> int \<Rightarrow> byte list option" where
  "nfqueue_put_header SEND_BUF_LEN queue_num msg_type =
     (if MNL_ALIGN 16 > SEND_BUF_LEN then None
      else
        let nlh = mnl_nlmsg_put_header [];
            nlh = set_nlmsg_type (to_u16 (push_bit 8 NFNL_SUBSYS_QUEUE OR msg_type)) nlh;
            nlh = set_nlmsg_flags NLM_F_REQUEST nlh
        in if nlmsg_len nlh + MNL_ALIGN sizeof_nfgenmsg > SEND_BUF_LEN then None
           else
             case mnl_nlmsg_put_extra_header nlh sizeof_nfgenmsg of
               (nlh, nfg) \<Rightarrow>
                 let nlh = write_at nlh nfg (put_u8 AF_UNSPEC);
                     nlh = write_at nlh (nfg + 1) (put_u8 NFNETLINK_V0);
                     nlh = write_at nlh (nfg + 2) (put_u16 (htons (to_u16 queue_num)))
                 in Some nlh)"

text \<open>The tail of the three sending functions, from the label \<open>end\<close>.\<close>

definition nfqueue_send_end :: "int \<Rightarrow> io \<Rightarrow> int \<times> io" where
  "nfqueue_send_end ret st =
     (if ret = BUF_TOO_SHORT then (ret, st\<lparr>errno := ENOBUFS\<rparr>) else (ret, st))"

definition nfqueue_send_command ::
  "nat \<Rightarrow> mnl_socket \<Rightarrow> int \<Rightarrow> int \<Rightarrow> nat \<Rightarrow> byte list \<Rightarrow> nat \<Rightarrow> io \<Rightarrow> int \<times> io" where
  "nfqueue_send_command SEND_BUF_LEN nl queue_num msg_type attr_type data data_size st =
     (let ret = BUF_TOO_SHORT
      in case nfqueue_put_header SEND_BUF_LEN queue_num msg_type of
           None \<Rightarrow> (ret, st)
         | Some nlh \<Rightarrow>
             (case mnl_attr_put_check nlh SEND_BUF_LEN attr_type data_size data of
                (ok, nlh) \<Rightarrow>
                  if \<not> ok then nfqueue_send_end ret st
                  else
                    case mnl_socket_sendto nl nlh (nlmsg_len nlh) st of
                      (ret, st) \<Rightarrow> nfqueue_send_end ret st))"

text \<open>The structures that the commands carry are written as their bytes:
  \<open>nfqnl_msg_config_cmd\<close> (command, padding, 16-bit family: 4 bytes),
  \<open>nfqnl_msg_config_params\<close> (32-bit copy range, copy mode, packed: 5 bytes) and
  \<open>nfqnl_msg_verdict_hdr\<close> (32-bit verdict, 32-bit id: 8 bytes); a field assigned from
  \<open>htons\<close> or \<open>htonl\<close> is the store of that value.\<close>

definition nfqueue_bind :: "nat \<Rightarrow> mnl_socket \<Rightarrow> int \<Rightarrow> io \<Rightarrow> int \<times> io" where
  "nfqueue_bind SEND_BUF_LEN nl queue_num st =
     (let cmd = put_u8 NFQNL_CFG_CMD_BIND @ put_u8 0 @ put_u16 0
      in nfqueue_send_command SEND_BUF_LEN nl queue_num NFQNL_MSG_CONFIG NFQA_CFG_CMD cmd 4 st)"

definition nfqueue_set_params ::
  "nat \<Rightarrow> mnl_socket \<Rightarrow> int \<Rightarrow> nat \<Rightarrow> int \<Rightarrow> nat \<Rightarrow> nat \<Rightarrow> io \<Rightarrow> int \<times> io" where
  "nfqueue_set_params SEND_BUF_LEN nl queue_num mode range' maxlen flags st =
     (let params = put_u32 (htonl (to_u32 range')) @ put_u8 mode;
          ret = BUF_TOO_SHORT
      in case nfqueue_put_header SEND_BUF_LEN queue_num NFQNL_MSG_CONFIG of
           None \<Rightarrow> (ret, st)
         | Some nlh \<Rightarrow>
             (case mnl_attr_put_check nlh SEND_BUF_LEN NFQA_CFG_PARAMS 5 params of
                (ok, nlh) \<Rightarrow>
                  if \<not> ok then nfqueue_send_end ret st
                  else
                    case (if maxlen > 0
                          then mnl_attr_put_u32_check nlh SEND_BUF_LEN NFQA_CFG_QUEUE_MAXLEN
                                 (htonl maxlen)
                          else (True, nlh)) of
                      (ok, nlh) \<Rightarrow>
                        if \<not> ok then nfqueue_send_end ret st
                        else
                          case (if flags \<noteq> 0
                                then (case mnl_attr_put_u32_check nlh SEND_BUF_LEN
                                             NFQA_CFG_FLAGS (htonl flags) of
                                        (ok, nlh) \<Rightarrow>
                                          if \<not> ok then (False, nlh)
                                          else mnl_attr_put_u32_check nlh SEND_BUF_LEN
                                                 NFQA_CFG_MASK (htonl flags))
                                else (True, nlh)) of
                            (ok, nlh) \<Rightarrow>
                              if \<not> ok then nfqueue_send_end ret st
                              else
                                case mnl_socket_sendto nl nlh (nlmsg_len nlh) st of
                                  (ret, st) \<Rightarrow> nfqueue_send_end ret st))"

definition nfqueue_send_verdict :: "nat \<Rightarrow> mnl_socket \<Rightarrow> int \<Rightarrow> nat \<Rightarrow> int \<Rightarrow> io \<Rightarrow> int \<times> io" where
  "nfqueue_send_verdict SEND_BUF_LEN nl queue_num packet_id verdict st =
     (let vh = put_u32 (htonl (to_u32 verdict)) @ put_u32 (htonl packet_id)
      in nfqueue_send_command SEND_BUF_LEN nl queue_num NFQNL_MSG_VERDICT NFQA_VERDICT_HDR vh 8 st)"

text \<open>\<open>connmark\<close> is an \<open>int64_t\<close>; the mark that is sent is \<open>(uint32_t)connmark\<close>.\<close>

definition nfqueue_send_verdict_connmark ::
  "nat \<Rightarrow> mnl_socket \<Rightarrow> int \<Rightarrow> nat \<Rightarrow> int \<Rightarrow> int \<Rightarrow> io \<Rightarrow> int \<times> io" where
  "nfqueue_send_verdict_connmark SEND_BUF_LEN nl queue_num packet_id verdict connmark st =
     (let vh = put_u32 (htonl (to_u32 verdict)) @ put_u32 (htonl packet_id);
          ret = BUF_TOO_SHORT
      in case nfqueue_put_header SEND_BUF_LEN queue_num NFQNL_MSG_VERDICT of
           None \<Rightarrow> (ret, st)
         | Some nlh \<Rightarrow>
             (case mnl_attr_put_check nlh SEND_BUF_LEN NFQA_VERDICT_HDR 8 vh of
                (ok, nlh) \<Rightarrow>
                  if \<not> ok then nfqueue_send_end ret st
                  else
                    case (if connmark \<ge> 0 then
                            (case mnl_attr_nest_start_check nlh SEND_BUF_LEN NFQA_CT of
                               None \<Rightarrow> (False, nlh)
                             | Some (nlh, nest) \<Rightarrow>
                                 (case mnl_attr_put_u32_check nlh SEND_BUF_LEN CTA_MARK
                                         (htonl (to_u32 connmark)) of
                                    (ok, nlh) \<Rightarrow>
                                      if \<not> ok then (False, nlh)
                                      else (True, mnl_attr_nest_end nlh nest)))
                          else (True, nlh)) of
                      (ok, nlh) \<Rightarrow>
                        if \<not> ok then nfqueue_send_end ret st
                        else
                          case mnl_socket_sendto nl nlh (nlmsg_len nlh) st of
                            (ret, st) \<Rightarrow> nfqueue_send_end ret st))"

section \<open>The wire format of a verdict\<close>

text \<open>
  The verdict message as the specification words it, to compare the encoder with: a
  netlink header (total length, type = queue subsystem and \<open>VERDICT\<close>, request flag), the
  generic sub-header (family unspecified, version 0, queue number in network byte
  order), the verdict header attribute (verdict code and packet id in network byte
  order) and, only when a mark is given, the nested tracking-context attribute that
  holds the mark attribute with the mark in network byte order. Big-endian bytes are
  written out by division.
\<close>

definition be16 :: "nat \<Rightarrow> byte list" where
  "be16 x = [of_nat (x div 256 mod 256), of_nat (x mod 256)]"

definition be32 :: "nat \<Rightarrow> byte list" where
  "be32 x = [of_nat (x div 16777216 mod 256), of_nat (x div 65536 mod 256),
             of_nat (x div 256 mod 256), of_nat (x mod 256)]"

definition verdict_msg :: "int \<Rightarrow> nat \<Rightarrow> int \<Rightarrow> nat option \<Rightarrow> byte list" where
  "verdict_msg queue_num packet_id verdict mark =
     [case mark of None \<Rightarrow> 32 | Some _ \<Rightarrow> 44, 0, 0, 0,  1, 3,  1, 0,  0, 0, 0, 0,  0, 0, 0, 0]
     @ [0, 0] @ be16 (to_u16 queue_num)
     @ [12, 0, 2, 0] @ be32 (to_u32 verdict) @ be32 packet_id
     @ (case mark of
          None \<Rightarrow> []
        | Some m \<Rightarrow> [12, 0, 11, 128] @ [8, 0, 8, 0] @ be32 m)"

section \<open>The room a command needs\<close>

text \<open>
  The bytes of the scratch buffer that each command fills: the netlink header and the
  generic sub-header (20 bytes), then per attribute its 4-byte header and its payload,
  aligned to 4. The configuration parameters are 5 bytes, a verdict header is 8, every
  other attribute here holds 4; the tracking-context nest adds its own header.
\<close>

definition command_size :: "nat \<Rightarrow> nat" where
  "command_size data_size = 20 + (4 + MNL_ALIGN data_size)"

definition set_params_size :: "nat \<Rightarrow> nat \<Rightarrow> nat" where
  "set_params_size maxlen flags =
     20 + (4 + 8) + (if maxlen > 0 then 4 + 4 else 0) + (if flags \<noteq> 0 then (4 + 4) + (4 + 4) else 0)"

definition verdict_connmark_size :: "int \<Rightarrow> nat" where
  "verdict_connmark_size connmark = 20 + (4 + 8) + (if connmark \<ge> 0 then 4 + (4 + 4) else 0)"

section \<open>Enums and object definitions\<close>

text \<open>
  \<open>ip_address_t\<close> is a 16-byte union; the model keeps its 16 bytes of storage.
  A \<open>struct timespec\<close> is the pair of its seconds and nanoseconds. The payload pointer
  of a packet is \<open>None\<close> when \<open>NULL\<close> and otherwise holds the content of the block that
  \<open>malloc\<close> returned for it.
\<close>

type_synonym ip_address_t = "byte list"
type_synonym timespec = "int \<times> int"

record ip_tuple =
  ip_version :: int
  src :: ip_address_t
  dst :: ip_address_t
  src_port :: nat
  dst_port :: nat

record timeval =
  tv_sec :: int
  tv_usec :: int

record nf_packet =
  queue_num :: int
  packet_id :: nat
  hw_protocol :: nat
  payload_len :: nat
  payload :: "byte list option"
  has_timestamp :: bool
  timestamp :: timeval
  wall_time :: timespec
  mono_time :: timespec
  has_conntrack :: bool
  has_connmark :: bool
  conn_id :: nat
  conn_mark :: nat
  conn_state :: nat
  conn_status :: nat
  orig :: ip_tuple
  reply :: ip_tuple

text \<open>The receive buffer: the data region, the cursor \<open>nlh\<close> as an offset into it, and
  the length \<open>len\<close> (a C \<open>int\<close>) that is left from the cursor.\<close>

record nf_buffer =
  data :: "byte list"
  nlh :: nat
  len :: int

text \<open>What the two \<open>clock_gettime\<close> calls of one \<open>nfqueue_parse\<close> read. The source does
  not look at what the calls return; they are taken to succeed.\<close>

record clock =
  clock_monotonic_raw :: timespec
  clock_realtime :: timespec

text \<open>The result of \<open>memset(packet, 0, sizeof(*packet))\<close>.\<close>

definition zero_ip_tuple :: ip_tuple where
  "zero_ip_tuple =
     \<lparr>ip_version = 0, src = replicate 16 0, dst = replicate 16 0, src_port = 0, dst_port = 0\<rparr>"

definition zero_packet :: nf_packet where
  "zero_packet =
     \<lparr>queue_num = 0, packet_id = 0, hw_protocol = 0, payload_len = 0, payload = None,
      has_timestamp = False, timestamp = \<lparr>tv_sec = 0, tv_usec = 0\<rparr>,
      wall_time = (0, 0), mono_time = (0, 0), has_conntrack = False, has_connmark = False,
      conn_id = 0, conn_mark = 0, conn_state = 0, conn_status = 0,
      orig = zero_ip_tuple, reply = zero_ip_tuple\<rparr>"

section \<open>Parse netfilter data into nf_packet\<close>

text \<open>\<open>read_ip_addr\<close> returns its result with the updated \<open>*ip_num\<close> and
  \<open>*ip_version\<close>. The payload pointer of an attribute is never \<open>NULL\<close>.\<close>

definition read_ip_addr ::
  "nlattr option \<Rightarrow> int \<Rightarrow> ip_address_t \<Rightarrow> int \<Rightarrow> bool \<times> ip_address_t \<times> int" where
  "read_ip_addr attr af ip_num ip_version' =
     (case attr of
        None \<Rightarrow> (True, ip_num, ip_version')
      | Some a \<Rightarrow>
          let addr = mnl_attr_get_payload a;
              (ip_num, ip_ver) =
                (if af = AF_INET then (take 4 addr @ replicate 12 0, IPV4)
                 else if af = AF_INET6 then (take 16 addr, IPV6)
                 else (ip_num, 0))
          in if ip_version' = 0 then (True, ip_num, ip_ver)
             else if ip_version' \<noteq> ip_ver then (False, ip_num, ip_version')
             else (True, ip_num, ip_version'))"

text \<open>The four calls of \<open>read_ip_addr\<close> are joined by \<open>&=\<close>: each one runs, on the
  tuple the previous ones left.\<close>

definition read_addr_tuple :: "nlattr \<Rightarrow> ip_tuple \<Rightarrow> bool \<times> ip_tuple" where
  "read_addr_tuple attr tuple =
     (case mnl_attr_parse_nested attr parse_tuple_cb Map.empty of
        (ret2, attr2) \<Rightarrow>
          if ret2 < 0 then (False, tuple)
          else
            case (case attr2 CTA_TUPLE_IP of
                    None \<Rightarrow> (True, tuple)
                  | Some ip \<Rightarrow>
                      (case mnl_attr_parse_nested ip parse_ip_cb Map.empty of
                         (ret3, attr3) \<Rightarrow>
                           if ret3 < 0 then (False, tuple)
                           else
                             let (s1, a, v) = read_ip_addr (attr3 CTA_IP_V4_SRC) AF_INET
                                                (src tuple) (ip_version tuple);
                                 tuple = tuple\<lparr>src := a, ip_version := v\<rparr>;
                                 (s2, a, v) = read_ip_addr (attr3 CTA_IP_V4_DST) AF_INET
                                                (dst tuple) (ip_version tuple);
                                 tuple = tuple\<lparr>dst := a, ip_version := v\<rparr>;
                                 (s3, a, v) = read_ip_addr (attr3 CTA_IP_V6_SRC) AF_INET6
                                                (src tuple) (ip_version tuple);
                                 tuple = tuple\<lparr>src := a, ip_version := v\<rparr>;
                                 (s4, a, v) = read_ip_addr (attr3 CTA_IP_V6_DST) AF_INET6
                                                (dst tuple) (ip_version tuple);
                                 tuple = tuple\<lparr>dst := a, ip_version := v\<rparr>
                             in (s1 \<and> s2 \<and> s3 \<and> s4, tuple))) of
              (success, tuple) \<Rightarrow>
                if \<not> success then (False, tuple)
                else
                  case attr2 CTA_TUPLE_PROTO of
                    None \<Rightarrow> (True, tuple)
                  | Some proto \<Rightarrow>
                      (case mnl_attr_parse_nested proto parse_proto_cb Map.empty of
                         (ret3, attr3) \<Rightarrow>
                           if ret3 < 0 then (False, tuple)
                           else
                             let tuple = (case attr3 CTA_PROTO_SRC_PORT of
                                            None \<Rightarrow> tuple
                                          | Some a \<Rightarrow>
                                              tuple\<lparr>src_port := ntohs (fixed_attr_get_u16 a)\<rparr>);
                                 tuple = (case attr3 CTA_PROTO_DST_PORT of
                                            None \<Rightarrow> tuple
                                          | Some a \<Rightarrow>
                                              tuple\<lparr>dst_port := ntohs (fixed_attr_get_u16 a)\<rparr>)
                             in (True, tuple)))"

text \<open>The last block of \<open>nfqueue_parse\<close> (conntrack state), which every path that
  has not returned before reaches.\<close>

definition nfqueue_parse_ct_info :: "attr_tb \<Rightarrow> nf_packet \<Rightarrow> bool \<times> nf_packet" where
  "nfqueue_parse_ct_info attr packet =
     (case attr NFQA_CT_INFO of
        Some a \<Rightarrow> (True, packet\<lparr>conn_state := ntohl (fixed_attr_get_u32 a)\<rparr>)
      | None \<Rightarrow> (True, packet))"

text \<open>The conntrack block of \<open>nfqueue_parse\<close>, with its three early returns, followed
  by the conntrack state block.\<close>

definition nfqueue_parse_ct :: "attr_tb \<Rightarrow> nf_packet \<Rightarrow> bool \<times> nf_packet" where
  "nfqueue_parse_ct attr packet =
     (case attr NFQA_CT of
        Some ct \<Rightarrow>
          let packet = packet\<lparr>has_conntrack := True\<rparr>
          in (case mnl_attr_parse_nested ct parse_cta_attr_cb Map.empty of
                (ret1, attr1) \<Rightarrow>
                  if ret1 < 0 then (False, packet)
                  else
                    let packet = (case attr1 CTA_ID of None \<Rightarrow> packet
                                  | Some a \<Rightarrow> packet\<lparr>conn_id := ntohl (fixed_attr_get_u32 a)\<rparr>);
                        packet = (case attr1 CTA_STATUS of None \<Rightarrow> packet
                                  | Some a \<Rightarrow> packet\<lparr>conn_status := ntohl (fixed_attr_get_u32 a)\<rparr>);
                        packet = (case attr1 CTA_MARK of None \<Rightarrow> packet
                                  | Some a \<Rightarrow> packet\<lparr>has_connmark := True,
                                                     conn_mark := ntohl (fixed_attr_get_u32 a)\<rparr>);
                        (ok1, t1) = (case attr1 CTA_TUPLE_ORIG of None \<Rightarrow> (True, orig packet)
                                     | Some a \<Rightarrow> read_addr_tuple a (orig packet));
                        packet = packet\<lparr>orig := t1\<rparr>
                    in if \<not> ok1 then (False, packet)
                       else
                         let (ok2, t2) = (case attr1 CTA_TUPLE_REPLY of
                                            None \<Rightarrow> (True, reply packet)
                                          | Some a \<Rightarrow> read_addr_tuple a (reply packet));
                             packet = packet\<lparr>reply := t2\<rparr>
                         in if \<not> ok2 then (False, packet)
                            else nfqueue_parse_ct_info attr packet)
      | None \<Rightarrow> nfqueue_parse_ct_info attr (packet\<lparr>has_conntrack := False\<rparr>))"

text \<open>
  \<open>nfqueue_parse\<close> returns its result with the packet record it has written. The log
  calls are left out (they write to the diagnostics sink only). The payload of the
  metaheader attribute cannot be \<open>NULL\<close>, so that check of the source never fires.
\<close>

definition nfqueue_parse :: "clock \<Rightarrow> byte list \<Rightarrow> bool \<times> nf_packet" where
  "nfqueue_parse clk nlh' =
     (let packet = zero_packet;
          packet = packet\<lparr>mono_time := clock_monotonic_raw clk\<rparr>;
          packet = packet\<lparr>wall_time := clock_realtime clk\<rparr>
      in case mnl_attr_parse nlh' sizeof_nfgenmsg parse_nfqa_attr_cb Map.empty of
           (ret, attr) \<Rightarrow>
             if ret < 0 then (False, packet)
             else
               case attr NFQA_PACKET_HDR of
                 None \<Rightarrow> (False, packet)
               | Some hdr \<Rightarrow>
                   (case attr NFQA_PAYLOAD of
                      None \<Rightarrow> (False, packet)
                    | Some pl \<Rightarrow>
                        let nfg = mnl_nlmsg_get_payload nlh';
                            packet = packet\<lparr>queue_num := int (ntohs (load16 nfg 2))\<rparr>;
                            ph = mnl_attr_get_payload hdr;
                            packet = packet\<lparr>packet_id := ntohl (load32 ph 0)\<rparr>;
                            packet = packet\<lparr>hw_protocol := ntohs (load16 ph 4)\<rparr>;
                            payload' = mnl_attr_get_payload pl;
                            packet = packet\<lparr>payload_len := mnl_attr_get_payload_len pl\<rparr>
                        in if payload_len packet = 0 then (False, packet)
                           else
                             let packet = packet\<lparr>payload :=
                                            Some (take (payload_len packet) payload')\<rparr>;
                                 packet = packet\<lparr>has_timestamp := False\<rparr>;
                                 packet =
                                   (case attr NFQA_TIMESTAMP of
                                      None \<Rightarrow> packet
                                    | Some a \<Rightarrow>
                                        let ts = mnl_attr_get_payload a
                                        in if load64 ts 0 \<noteq> 0 \<or> load64 ts 8 \<noteq> 0
                                           then packet\<lparr>has_timestamp := True,
                                                  timestamp :=
                                                    \<lparr>tv_sec = to_long (int (be64_to_cpu (load64 ts 0))),
                                                     tv_usec = to_long (int (be64_to_cpu (load64 ts 8)))\<rparr>\<rparr>
                                           else packet)
                             in nfqueue_parse_ct attr packet))"

section \<open>Public interface: iteration\<close>

text \<open>\<open>mnl_nlmsg_next\<close> on the buffer: the length left shrinks by the aligned message
  length (an \<open>int\<close> minus an unsigned value, stored back into the \<open>int\<close>), and the cursor
  moves forward by it.\<close>

definition mnl_nlmsg_next :: "nf_buffer \<Rightarrow> nf_buffer" where
  "mnl_nlmsg_next buf =
     (let n = MNL_ALIGN_u32 (nlmsg_len (drop (nlh buf) (data buf)))
      in buf\<lparr>len := to_int (len buf - int n), nlh := nlh buf + n\<rparr>)"

text \<open>
  \<open>nfqueue_next\<close> returns the I/O result with the buffer and the packet as it leaves
  them. Its \<open>while\<close> loop may not end, so the function is partial: \<open>None\<close> is a call
  that never returns. The three \<open>ASSERT\<close>s hold for every buffer that
  \<open>nfqueue_receive\<close> has filled.
\<close>

partial_function (option) nfqueue_next ::
  "clock \<Rightarrow> nf_buffer \<Rightarrow> nf_packet \<Rightarrow> (int \<times> nf_buffer \<times> nf_packet) option" where
  "nfqueue_next clk buf packet =
     (if mnl_nlmsg_ok (drop (nlh buf) (data buf)) (len buf) then
        if nlmsg_flags (drop (nlh buf) (data buf)) AND NLM_F_DUMP_INTR \<noteq> 0
        then Some (IO_ERROR, buf, packet)
        else if nlmsg_type (drop (nlh buf) (data buf)) \<ge> NLMSG_MIN_TYPE then
          (case nfqueue_parse clk (drop (nlh buf) (data buf)) of
             (ok, packet) \<Rightarrow>
               if \<not> ok then Some (IO_ERROR, buf, packet)
               else Some (IO_READY, mnl_nlmsg_next buf, packet))
        else nfqueue_next clk buf packet
      else Some (IO_NOTREADY, buf, packet))"

text \<open>
  The caller's side of the iteration: one call of \<open>nfqueue_next\<close> per clock reading,
  each on the buffer and the packet record that the call before it left. The result
  lists, per call, the I/O result and the packet record after the call; it is \<open>None\<close>
  when one of the calls does not return.
\<close>

fun nfqueue_next_calls ::
  "clock list \<Rightarrow> nf_buffer \<Rightarrow> nf_packet \<Rightarrow> (int \<times> nf_packet) list option" where
  "nfqueue_next_calls [] buf packet = Some []"
| "nfqueue_next_calls (clk # clks) buf packet =
     (case nfqueue_next clk buf packet of
        None \<Rightarrow> None
      | Some (r, buf', packet') \<Rightarrow>
          (case nfqueue_next_calls clks buf' packet' of
             None \<Rightarrow> None
           | Some rs \<Rightarrow> Some ((r, packet') # rs)))"

text \<open>
  A well-formed event message: the bytes that one message occupies in a receive buffer,
  which are the \<open>nlmsg_len\<close> bytes of the message and all, some or none of the padding
  that aligns the next message. Its length field covers at least the netlink header, the
  dump-interrupted flag is clear, and its type is an application type.
\<close>

definition event_msg :: "byte list \<Rightarrow> bool" where
  "event_msg m \<longleftrightarrow>
     MNL_NLMSG_HDRLEN \<le> nlmsg_len m
     \<and> nlmsg_len m \<le> length m \<and> length m \<le> MNL_ALIGN (nlmsg_len m)
     \<and> nlmsg_flags m AND NLM_F_DUMP_INTR = 0
     \<and> NLMSG_MIN_TYPE \<le> nlmsg_type m"

text \<open>
  \<open>batch ms rest n\<close>: a receive buffer whose data region is \<open>concat ms @ rest\<close> holds
  exactly the messages \<open>ms\<close>, and \<open>n\<close> bytes of it were received. A message that another
  one follows occupies its aligned length. The last message need not be padded: the
  received bytes end with the message or within its padding, and \<open>ms\<close> lists it either
  with the whole of its padding (bytes of the buffer that may not have been received) or,
  when the data region ends there, with what there is of it.
\<close>

fun batch :: "byte list list \<Rightarrow> byte list \<Rightarrow> nat \<Rightarrow> bool" where
  "batch [] rest n \<longleftrightarrow> n = 0"
| "batch [m] rest n \<longleftrightarrow>
     nlmsg_len m \<le> n \<and> n \<le> length m \<and> (length m = MNL_ALIGN (nlmsg_len m) \<or> rest = [])"
| "batch (m # m' # ms) rest n \<longleftrightarrow>
     length m = MNL_ALIGN (nlmsg_len m) \<and> length m \<le> n \<and> batch (m' # ms) rest (n - length m)"

section \<open>Public interface: verdict\<close>

record nf_queue =
  q_queue_num :: int
  nl_socket :: mnl_socket

definition nfqueue_verdict :: "nat \<Rightarrow> nf_queue \<Rightarrow> nat \<Rightarrow> int \<Rightarrow> int \<Rightarrow> io \<Rightarrow> bool \<times> io" where
  "nfqueue_verdict SEND_BUF_LEN q packet_id' verdict connmark st =
     (case nfqueue_send_verdict_connmark SEND_BUF_LEN (nl_socket q) (q_queue_num q)
             packet_id' verdict connmark st of
        (ret, st) \<Rightarrow> if ret < 0 then (False, st) else (True, st))"

section \<open>Example messages\<close>

text \<open>
  Messages as the kernel sends them, used to run the definitions: two packet events
  (queue 5, packet ids 7 and 9; the second is 41 bytes long and ends without padding,
  and \<open>stale\<close> stands for bytes of the buffer that no message has written), a netlink
  error message (type \<open>NLMSG_ERROR\<close>, as the
  kernel answers a verdict for an unknown packet id), an event with the
  dump-interrupted flag, an event without its payload attribute, and two clock readings.
\<close>

definition ev_msg :: "byte list" where
  "ev_msg = [40,0,0,0, 0,3, 0,0, 0,0,0,0, 0,0,0,0,
             2,0,0,5,
             11,0, 1,0, 0,0,0,7, 8,0, 1, 0,
             8,0, 10,0, 69,0,0,20]"

definition ev_msg2 :: "byte list" where
  "ev_msg2 = [41,0,0,0, 0,3, 0,0, 0,0,0,0, 0,0,0,0,
              2,0,0,5,
              11,0, 1,0, 0,0,0,9, 8,0, 1, 0,
              9,0, 10,0, 69,0,0,20,1]"

definition stale :: "byte list" where
  "stale = [170, 170, 170]"

definition err_msg :: "byte list" where
  "err_msg = [36,0,0,0, 2,0, 0,0, 0,0,0,0, 0,0,0,0,
              254,255,255,255,
              32,0,0,0, 1,3, 1,0, 0,0,0,0, 0,0,0,0]"

definition intr_msg :: "byte list" where
  "intr_msg = [40,0,0,0, 0,3, 16,0, 0,0,0,0, 0,0,0,0,
               2,0,0,5,
               11,0, 1,0, 0,0,0,7, 8,0, 1, 0,
               8,0, 10,0, 69,0,0,20]"

definition no_payload_msg :: "byte list" where
  "no_payload_msg = [32,0,0,0, 0,3, 0,0, 0,0,0,0, 0,0,0,0,
                     2,0,0,5,
                     11,0, 1,0, 0,0,0,7, 8,0, 1, 0]"

definition clk0 :: clock where
  "clk0 = \<lparr>clock_monotonic_raw = (100, 5), clock_realtime = (1700000000, 9)\<rparr>"

definition clk1 :: clock where
  "clk1 = \<lparr>clock_monotonic_raw = (101, 6), clock_realtime = (1700000001, 10)\<rparr>"

definition ts0_msg :: "byte list" where
  "ts0_msg = [60,0,0,0, 0,3, 0,0, 0,0,0,0, 0,0,0,0,
              2,0,0,5,
              11,0, 1,0, 0,0,0,7, 8,0, 1, 0,
              8,0, 10,0, 69,0,0,20,
              20,0, 4,0, 0,0,0,0,0,0,0,0, 0,0,0,0,0,0,0,0]"

definition empty_payload_msg :: "byte list" where
  "empty_payload_msg = [36,0,0,0, 0,3, 0,0, 0,0,0,0, 0,0,0,0,
                        2,0,0,5,
                        11,0, 1,0, 0,0,0,7, 8,0, 1, 0,
                        4,0, 10,0]"

definition ct_mixed_msg :: "byte list" where
  "ct_mixed_msg = [80,0,0,0, 0,3, 0,0, 0,0,0,0, 0,0,0,0,
                   2,0,0,5,
                   11,0, 1,0, 0,0,0,7, 8,0, 1, 0,
                   8,0, 10,0, 69,0,0,20,
                   40,0, 11,128,
                     36,0, 1,128,
                       32,0, 1,128,
                         8,0, 1,0, 10,0,0,1,
                         20,0, 4,0, 32,1,13,184, 0,0,0,0, 0,0,0,0, 0,0,0,1]"

definition ct_bad_mark_msg :: "byte list" where
  "ct_bad_mark_msg = [52,0,0,0, 0,3, 0,0, 0,0,0,0, 0,0,0,0,
                      2,0,0,5,
                      11,0, 1,0, 0,0,0,7, 8,0, 1, 0,
                      8,0, 10,0, 69,0,0,20,
                      12,0, 11,128,
                        6,0, 8,0, 0,1, 0,0]"

definition ts1_msg :: "byte list" where
  "ts1_msg = [60,0,0,0, 0,3, 0,0, 0,0,0,0, 0,0,0,0,
              2,0,0,5,
              11,0, 1,0, 0,0,0,7, 8,0, 1, 0,
              8,0, 10,0, 69,0,0,20,
              20,0, 4,0, 0,0,0,0,5,245,225,0, 0,0,0,0,0,3,208,144]"

section \<open>Evaluation and basic facts\<close>

declare mnl_attr_for_each.simps [simp del]

lemmas const_defs =
  NFQA_PACKET_HDR_def NFQA_VERDICT_HDR_def NFQA_MARK_def NFQA_TIMESTAMP_def
  NFQA_IFINDEX_INDEV_def NFQA_IFINDEX_OUTDEV_def NFQA_IFINDEX_PHYSINDEV_def
  NFQA_IFINDEX_PHYSOUTDEV_def NFQA_HWADDR_def NFQA_PAYLOAD_def NFQA_CT_def NFQA_CT_INFO_def
  NFQA_CAP_LEN_def NFQA_SKB_INFO_def NFQA_EXP_def NFQA_UID_def NFQA_GID_def NFQA_SECCTX_def
  NFQA_MAX_def CTA_TUPLE_ORIG_def CTA_TUPLE_REPLY_def CTA_STATUS_def CTA_TIMEOUT_def CTA_MARK_def
  CTA_COUNTERS_ORIG_def CTA_COUNTERS_REPLY_def CTA_ID_def CTA_SECMARK_def CTA_MAX_def
  CTA_TUPLE_IP_def CTA_TUPLE_PROTO_def CTA_TUPLE_MAX_def CTA_IP_V4_SRC_def CTA_IP_V4_DST_def
  CTA_IP_V6_SRC_def CTA_IP_V6_DST_def CTA_IP_MAX_def CTA_PROTO_NUM_def CTA_PROTO_SRC_PORT_def
  CTA_PROTO_DST_PORT_def CTA_PROTO_ICMP_ID_def CTA_PROTO_ICMP_TYPE_def CTA_PROTO_ICMP_CODE_def
  CTA_PROTO_MAX_def NLA_F_NESTED_def NLA_TYPE_MASK_def MNL_CB_ERROR_def MNL_CB_STOP_def
  MNL_CB_OK_def MNL_NLMSG_HDRLEN_def MNL_ATTR_HDRLEN_def sizeof_nfgenmsg_def
  sizeof_nfqnl_msg_packet_hdr_def sizeof_nfqnl_msg_packet_timestamp_def
  sizeof_nfqnl_msg_packet_hw_def sizeof_in6_addr_def NLM_F_DUMP_INTR_def NLMSG_MIN_TYPE_def
  IO_ERROR_def IO_NOTREADY_def IO_READY_def AF_INET_def AF_INET6_def IPV4_def IPV6_def

lemmas load_defs = peek_def load16_def load32_def load64_def

lemmas attr_defs =
  mnl_attr_parse_def mnl_attr_parse_nested_def mnl_attr_ok_def nla_len_def nla_type_def
  MNL_ALIGN_def MNL_ALIGN_u32_def nlmsg_len_def nlmsg_type_def nlmsg_flags_def
  mnl_attr_get_type_def mnl_attr_type_valid_def mnl_attr_validate_def mnl_attr_validate2_def
  mnl_attr_validate_len_def mnl_attr_get_payload_len_def mnl_attr_get_payload_def
  mnl_nlmsg_get_payload_def mnl_nlmsg_ok_def to_u16_def to_int_def
  fixed_attr_get_u16_def fixed_attr_get_u32_def

lemma to_int_id: "0 \<le> x \<Longrightarrow> x < 2147483648 \<Longrightarrow> to_int x = x"
  by (simp add: to_int_def)

lemma peek_append: "i < length xs \<Longrightarrow> peek (xs @ ys) i = peek xs i"
  by (simp add: peek_def nth_append)

lemma load16_append: "off + 1 < length xs \<Longrightarrow> load16 (xs @ ys) off = load16 xs off"
  by (simp add: load16_def peek_append)

lemma load32_append: "off + 3 < length xs \<Longrightarrow> load32 (xs @ ys) off = load32 xs off"
  by (simp add: load32_def load16_append)

subsection \<open>The three outcomes of one pass through the loop of \<open>nfqueue_next\<close>\<close>

lemma nfqueue_next_exhausted:
  "\<not> mnl_nlmsg_ok (drop (nlh buf) (data buf)) (len buf) \<Longrightarrow>
     nfqueue_next clk buf packet = Some (IO_NOTREADY, buf, packet)"
  by (subst nfqueue_next.simps) simp

lemma nfqueue_next_intr:
  "mnl_nlmsg_ok (drop (nlh buf) (data buf)) (len buf) \<Longrightarrow>
   nlmsg_flags (drop (nlh buf) (data buf)) AND NLM_F_DUMP_INTR \<noteq> 0 \<Longrightarrow>
     nfqueue_next clk buf packet = Some (IO_ERROR, buf, packet)"
  by (subst nfqueue_next.simps) simp

lemma nfqueue_next_event:
  "mnl_nlmsg_ok (drop (nlh buf) (data buf)) (len buf) \<Longrightarrow>
   nlmsg_flags (drop (nlh buf) (data buf)) AND NLM_F_DUMP_INTR = 0 \<Longrightarrow>
   NLMSG_MIN_TYPE \<le> nlmsg_type (drop (nlh buf) (data buf)) \<Longrightarrow>
     nfqueue_next clk buf packet =
       (if fst (nfqueue_parse clk (drop (nlh buf) (data buf)))
        then Some (IO_READY, mnl_nlmsg_next buf, snd (nfqueue_parse clk (drop (nlh buf) (data buf))))
        else Some (IO_ERROR, buf, snd (nfqueue_parse clk (drop (nlh buf) (data buf)))))"
  by (subst nfqueue_next.simps) (simp add: case_prod_beta)

text \<open>A message of a reserved type is never left behind: the loop tests the same message
  again, so no call that meets one returns.\<close>

lemma nfqueue_next_reserved_type:
  assumes "nfqueue_next clk buf packet = Some y"
  shows "\<not> (mnl_nlmsg_ok (drop (nlh buf) (data buf)) (len buf)
            \<and> nlmsg_flags (drop (nlh buf) (data buf)) AND NLM_F_DUMP_INTR = 0
            \<and> nlmsg_type (drop (nlh buf) (data buf)) < NLMSG_MIN_TYPE)"
proof (rule nfqueue_next.raw_induct
    [where P = "\<lambda>c b p r. \<not> (mnl_nlmsg_ok (drop (nlh b) (data b)) (len b)
                  \<and> nlmsg_flags (drop (nlh b) (data b)) AND NLM_F_DUMP_INTR = 0
                  \<and> nlmsg_type (drop (nlh b) (data b)) < NLMSG_MIN_TYPE)", OF _ assms])
  fix f :: "clock \<Rightarrow> nf_buffer \<Rightarrow> nf_packet \<Rightarrow> (int \<times> nf_buffer \<times> nf_packet) option"
    and clk buf packet y
  assume IH: "\<And>c b p r. f c b p = Some r \<Longrightarrow>
      \<not> (mnl_nlmsg_ok (drop (nlh b) (data b)) (len b)
         \<and> nlmsg_flags (drop (nlh b) (data b)) AND NLM_F_DUMP_INTR = 0
         \<and> nlmsg_type (drop (nlh b) (data b)) < NLMSG_MIN_TYPE)"
  assume eq: "(if mnl_nlmsg_ok (drop (nlh buf) (data buf)) (len buf) then
        if nlmsg_flags (drop (nlh buf) (data buf)) AND NLM_F_DUMP_INTR \<noteq> 0
        then Some (IO_ERROR, buf, packet)
        else if nlmsg_type (drop (nlh buf) (data buf)) \<ge> NLMSG_MIN_TYPE then
          (case nfqueue_parse clk (drop (nlh buf) (data buf)) of
             (ok, packet) \<Rightarrow>
               if \<not> ok then Some (IO_ERROR, buf, packet)
               else Some (IO_READY, mnl_nlmsg_next buf, packet))
        else f clk buf packet
      else Some (IO_NOTREADY, buf, packet)) = Some y"
  show "\<not> (mnl_nlmsg_ok (drop (nlh buf) (data buf)) (len buf)
          \<and> nlmsg_flags (drop (nlh buf) (data buf)) AND NLM_F_DUMP_INTR = 0
          \<and> nlmsg_type (drop (nlh buf) (data buf)) < NLMSG_MIN_TYPE)"
  proof
    assume c: "mnl_nlmsg_ok (drop (nlh buf) (data buf)) (len buf)
          \<and> nlmsg_flags (drop (nlh buf) (data buf)) AND NLM_F_DUMP_INTR = 0
          \<and> nlmsg_type (drop (nlh buf) (data buf)) < NLMSG_MIN_TYPE"
    with eq have "f clk buf packet = Some y" by simp
    from IH[OF this] c show False by simp
  qed
qed

lemma nfqueue_next_reserved_type_None:
  "mnl_nlmsg_ok (drop (nlh buf) (data buf)) (len buf) \<Longrightarrow>
   nlmsg_flags (drop (nlh buf) (data buf)) AND NLM_F_DUMP_INTR = 0 \<Longrightarrow>
   nlmsg_type (drop (nlh buf) (data buf)) < NLMSG_MIN_TYPE \<Longrightarrow>
     nfqueue_next clk buf packet = None"
  using nfqueue_next_reserved_type [of clk buf packet] by (cases "nfqueue_next clk buf packet") auto

subsection \<open>\<open>nfqueue_parse\<close>, path by path\<close>

lemma nfqueue_parse_early:
  assumes "mnl_attr_parse m sizeof_nfgenmsg parse_nfqa_attr_cb Map.empty = (ret, attr)"
    and "ret < 0 \<or> attr NFQA_PACKET_HDR = None \<or> attr NFQA_PAYLOAD = None"
  shows "nfqueue_parse clk m =
     (False, zero_packet\<lparr>mono_time := clock_monotonic_raw clk, wall_time := clock_realtime clk\<rparr>)"
  using assms by (auto simp add: nfqueue_parse_def Let_def split: option.splits)

lemma nfqueue_parse_empty_payload:
  assumes "mnl_attr_parse m sizeof_nfgenmsg parse_nfqa_attr_cb Map.empty = (ret, attr)"
    and "\<not> ret < 0" "attr NFQA_PACKET_HDR = Some hdr" "attr NFQA_PAYLOAD = Some pl"
    and "mnl_attr_get_payload_len pl = 0"
  shows "nfqueue_parse clk m =
     (False, zero_packet\<lparr>mono_time := clock_monotonic_raw clk, wall_time := clock_realtime clk,
        queue_num := int (ntohs (load16 (mnl_nlmsg_get_payload m) 2)),
        packet_id := ntohl (load32 (mnl_attr_get_payload hdr) 0),
        hw_protocol := ntohs (load16 (mnl_attr_get_payload hdr) 4)\<rparr>)"
  using assms by (simp add: nfqueue_parse_def Let_def zero_packet_def)

lemma nfqueue_parse_body:
  assumes "mnl_attr_parse m sizeof_nfgenmsg parse_nfqa_attr_cb Map.empty = (ret, attr)"
    and "\<not> ret < 0" "attr NFQA_PACKET_HDR = Some hdr" "attr NFQA_PAYLOAD = Some pl"
    and "mnl_attr_get_payload_len pl \<noteq> 0"
  shows "nfqueue_parse clk m =
     nfqueue_parse_ct attr
       (zero_packet\<lparr>mono_time := clock_monotonic_raw clk, wall_time := clock_realtime clk,
          queue_num := int (ntohs (load16 (mnl_nlmsg_get_payload m) 2)),
          packet_id := ntohl (load32 (mnl_attr_get_payload hdr) 0),
          hw_protocol := ntohs (load16 (mnl_attr_get_payload hdr) 4),
          payload_len := mnl_attr_get_payload_len pl,
          payload := Some (take (mnl_attr_get_payload_len pl) (mnl_attr_get_payload pl)),
          has_timestamp :=
            (case attr NFQA_TIMESTAMP of
               None \<Rightarrow> False
             | Some a \<Rightarrow> load64 (mnl_attr_get_payload a) 0 \<noteq> 0
                         \<or> load64 (mnl_attr_get_payload a) 8 \<noteq> 0),
          timestamp :=
            (case attr NFQA_TIMESTAMP of
               None \<Rightarrow> \<lparr>tv_sec = 0, tv_usec = 0\<rparr>
             | Some a \<Rightarrow>
                 if load64 (mnl_attr_get_payload a) 0 \<noteq> 0 \<or> load64 (mnl_attr_get_payload a) 8 \<noteq> 0
                 then \<lparr>tv_sec = to_long (int (be64_to_cpu (load64 (mnl_attr_get_payload a) 0))),
                       tv_usec = to_long (int (be64_to_cpu (load64 (mnl_attr_get_payload a) 8)))\<rparr>
                 else \<lparr>tv_sec = 0, tv_usec = 0\<rparr>)\<rparr>)"
  using assms
  by (cases "attr NFQA_TIMESTAMP") (simp_all add: nfqueue_parse_def Let_def zero_packet_def)

text \<open>The conntrack blocks write the conntrack fields only, and whether they succeed
  depends on the attributes and on the two tuples they start from.\<close>

lemma nfqueue_parse_ct_frame:
  "snd (nfqueue_parse_ct attr p) =
     p\<lparr>has_conntrack := has_conntrack (snd (nfqueue_parse_ct attr p)),
       has_connmark := has_connmark (snd (nfqueue_parse_ct attr p)),
       conn_id := conn_id (snd (nfqueue_parse_ct attr p)),
       conn_mark := conn_mark (snd (nfqueue_parse_ct attr p)),
       conn_state := conn_state (snd (nfqueue_parse_ct attr p)),
       conn_status := conn_status (snd (nfqueue_parse_ct attr p)),
       orig := orig (snd (nfqueue_parse_ct attr p)),
       reply := reply (snd (nfqueue_parse_ct attr p))\<rparr>"
proof (cases "attr NFQA_CT")
  case None
  then show ?thesis
    by (cases "attr NFQA_CT_INFO") (simp_all add: nfqueue_parse_ct_def nfqueue_parse_ct_info_def)
next
  case (Some ct)
  obtain ret1 attr1 where r: "mnl_attr_parse_nested ct parse_cta_attr_cb Map.empty = (ret1, attr1)"
    by (cases "mnl_attr_parse_nested ct parse_cta_attr_cb Map.empty")
  show ?thesis
    using Some r
    by (cases "attr1 CTA_ID"; cases "attr1 CTA_STATUS"; cases "attr1 CTA_MARK";
        cases "attr1 CTA_TUPLE_ORIG"; cases "attr1 CTA_TUPLE_REPLY"; cases "attr NFQA_CT_INFO";
        simp add: nfqueue_parse_ct_def nfqueue_parse_ct_info_def Let_def case_prod_beta)
qed

lemma nfqueue_parse_ct_fst:
  assumes "orig p = orig p'" "reply p = reply p'"
  shows "fst (nfqueue_parse_ct attr p) = fst (nfqueue_parse_ct attr p')"
proof (cases "attr NFQA_CT")
  case None
  then show ?thesis
    by (cases "attr NFQA_CT_INFO") (simp_all add: nfqueue_parse_ct_def nfqueue_parse_ct_info_def)
next
  case (Some ct)
  obtain ret1 attr1 where r: "mnl_attr_parse_nested ct parse_cta_attr_cb Map.empty = (ret1, attr1)"
    by (cases "mnl_attr_parse_nested ct parse_cta_attr_cb Map.empty")
  show ?thesis
    using Some r assms
    by (cases "attr1 CTA_ID"; cases "attr1 CTA_STATUS"; cases "attr1 CTA_MARK";
        cases "attr1 CTA_TUPLE_ORIG"; cases "attr1 CTA_TUPLE_REPLY"; cases "attr NFQA_CT_INFO";
        simp add: nfqueue_parse_ct_def nfqueue_parse_ct_info_def Let_def case_prod_beta)
qed

lemma nfqueue_parse_ct_fields:
  "payload (snd (nfqueue_parse_ct attr p)) = payload p"
  "payload_len (snd (nfqueue_parse_ct attr p)) = payload_len p"
  "has_timestamp (snd (nfqueue_parse_ct attr p)) = has_timestamp p"
  "timestamp (snd (nfqueue_parse_ct attr p)) = timestamp p"
  "mono_time (snd (nfqueue_parse_ct attr p)) = mono_time p"
  "wall_time (snd (nfqueue_parse_ct attr p)) = wall_time p"
  by (subst nfqueue_parse_ct_frame, simp)+

text \<open>Whether a message parses does not depend on the clocks.\<close>

lemma nfqueue_parse_fst_clock:
  "fst (nfqueue_parse clk m) = fst (nfqueue_parse clk' m)"
proof -
  obtain ret attr where a:
    "mnl_attr_parse m sizeof_nfgenmsg parse_nfqa_attr_cb Map.empty = (ret, attr)"
    by (cases "mnl_attr_parse m sizeof_nfgenmsg parse_nfqa_attr_cb Map.empty")
  show ?thesis
  proof (cases "ret < 0 \<or> attr NFQA_PACKET_HDR = None \<or> attr NFQA_PAYLOAD = None")
    case True
    then show ?thesis by (simp add: nfqueue_parse_early [OF a])
  next
    case False
    then obtain hdr pl where h: "\<not> ret < 0" "attr NFQA_PACKET_HDR = Some hdr"
      "attr NFQA_PAYLOAD = Some pl" by auto
    show ?thesis
    proof (cases "mnl_attr_get_payload_len pl = 0")
      case True
      then show ?thesis by (simp add: nfqueue_parse_empty_payload [OF a h])
    next
      case False
      show ?thesis
        unfolding nfqueue_parse_body [OF a h False]
        by (rule nfqueue_parse_ct_fst) (simp_all add: zero_packet_def)
    qed
  qed
qed

lemma nfqueue_parse_clocks:
  "mono_time (snd (nfqueue_parse clk m)) = clock_monotonic_raw clk
   \<and> wall_time (snd (nfqueue_parse clk m)) = clock_realtime clk"
proof -
  obtain ret attr where a:
    "mnl_attr_parse m sizeof_nfgenmsg parse_nfqa_attr_cb Map.empty = (ret, attr)"
    by (cases "mnl_attr_parse m sizeof_nfgenmsg parse_nfqa_attr_cb Map.empty")
  show ?thesis
  proof (cases "ret < 0 \<or> attr NFQA_PACKET_HDR = None \<or> attr NFQA_PAYLOAD = None")
    case True
    then show ?thesis by (simp add: nfqueue_parse_early [OF a] zero_packet_def)
  next
    case False
    then obtain hdr pl where h: "\<not> ret < 0" "attr NFQA_PACKET_HDR = Some hdr"
      "attr NFQA_PAYLOAD = Some pl" by auto
    show ?thesis
    proof (cases "mnl_attr_get_payload_len pl = 0")
      case True
      then show ?thesis by (simp add: nfqueue_parse_empty_payload [OF a h] zero_packet_def)
    next
      case False
      show ?thesis
        unfolding nfqueue_parse_body [OF a h False]
        by (simp add: nfqueue_parse_ct_fields zero_packet_def)
    qed
  qed
qed

lemma nfqueue_parse_ct_cong:
  assumes "attr NFQA_CT = attr' NFQA_CT" "attr NFQA_CT_INFO = attr' NFQA_CT_INFO"
  shows "nfqueue_parse_ct attr p = nfqueue_parse_ct attr' p"
  unfolding nfqueue_parse_ct_def nfqueue_parse_ct_info_def assms by (rule refl)

lemma read_ip_addr_eq:
  "read_ip_addr None af ip v = (True, ip, v)"
  "read_ip_addr (Some a) AF_INET ip v =
     (v = 0 \<or> v = IPV4, take 4 (mnl_attr_get_payload a) @ replicate 12 0,
      if v = 0 then IPV4 else v)"
  "read_ip_addr (Some a) AF_INET6 ip v =
     (v = 0 \<or> v = IPV6, take 16 (mnl_attr_get_payload a), if v = 0 then IPV6 else v)"
  by (auto simp: read_ip_addr_def Let_def const_defs)

lemma read_addr_tuple_mixed:
  assumes "mnl_attr_parse_nested t parse_tuple_cb Map.empty = (ret2, attr2)"
    and "attr2 CTA_TUPLE_IP = Some ip"
    and "mnl_attr_parse_nested ip parse_ip_cb Map.empty = (ret3, attr3)"
    and "attr3 CTA_IP_V4_SRC \<noteq> None \<or> attr3 CTA_IP_V4_DST \<noteq> None"
    and "attr3 CTA_IP_V6_SRC \<noteq> None \<or> attr3 CTA_IP_V6_DST \<noteq> None"
  shows "\<not> fst (read_addr_tuple t tuple)"
  using assms
  by (cases "attr3 CTA_IP_V4_SRC"; cases "attr3 CTA_IP_V4_DST";
      cases "attr3 CTA_IP_V6_SRC"; cases "attr3 CTA_IP_V6_DST")
     (simp_all add: read_addr_tuple_def Let_def read_ip_addr_eq IPV4_def IPV6_def)

lemma nfqueue_parse_ct_tuple_fails:
  assumes "attr NFQA_CT = Some ct"
    and "mnl_attr_parse_nested ct parse_cta_attr_cb Map.empty = (ret1, attr1)"
    and "attr1 CTA_TUPLE_ORIG = Some t \<or> attr1 CTA_TUPLE_REPLY = Some t"
    and "\<And>tuple. \<not> fst (read_addr_tuple t tuple)"
  shows "\<not> fst (nfqueue_parse_ct attr p)"
  using assms
  by (cases "attr1 CTA_ID"; cases "attr1 CTA_STATUS"; cases "attr1 CTA_MARK";
      cases "attr1 CTA_TUPLE_ORIG"; cases "attr1 CTA_TUPLE_REPLY")
     (auto simp add: nfqueue_parse_ct_def Let_def case_prod_beta)

lemma nfqueue_parse_cases:
  obtains (early) ret attr where
      "mnl_attr_parse m sizeof_nfgenmsg parse_nfqa_attr_cb Map.empty = (ret, attr)"
      "ret < 0 \<or> attr NFQA_PACKET_HDR = None \<or> attr NFQA_PAYLOAD = None"
  | (empty) ret attr hdr pl where
      "mnl_attr_parse m sizeof_nfgenmsg parse_nfqa_attr_cb Map.empty = (ret, attr)"
      "\<not> ret < 0" "attr NFQA_PACKET_HDR = Some hdr" "attr NFQA_PAYLOAD = Some pl"
      "mnl_attr_get_payload_len pl = 0"
  | (body) ret attr hdr pl where
      "mnl_attr_parse m sizeof_nfgenmsg parse_nfqa_attr_cb Map.empty = (ret, attr)"
      "\<not> ret < 0" "attr NFQA_PACKET_HDR = Some hdr" "attr NFQA_PAYLOAD = Some pl"
      "mnl_attr_get_payload_len pl \<noteq> 0"
proof -
  obtain ret attr where a:
    "mnl_attr_parse m sizeof_nfgenmsg parse_nfqa_attr_cb Map.empty = (ret, attr)"
    by (cases "mnl_attr_parse m sizeof_nfgenmsg parse_nfqa_attr_cb Map.empty")
  show thesis
  proof (cases "ret < 0 \<or> attr NFQA_PACKET_HDR = None \<or> attr NFQA_PAYLOAD = None")
    case True
    with a show ?thesis by (rule early)
  next
    case False
    then obtain hdr pl where h: "\<not> ret < 0" "attr NFQA_PACKET_HDR = Some hdr"
      "attr NFQA_PAYLOAD = Some pl" by auto
    show ?thesis
      by (cases "mnl_attr_get_payload_len pl = 0") (rule empty [OF a h], assumption, rule body [OF a h], assumption)
  qed
qed

lemma MNL_ALIGN_ge: "n \<le> MNL_ALIGN n"
  unfolding MNL_ALIGN_def by presburger

lemma mnl_attr_for_each_Nil: "mnl_attr_for_each cb [] n ret tb = (ret, tb)"
  by (subst mnl_attr_for_each.simps) (simp add: mnl_attr_ok_def nla_len_def load16_def peek_def)

lemma mnl_attr_for_each_end:
  "n < 4 \<Longrightarrow> mnl_attr_for_each cb bs n ret tb = (ret, tb)"
  by (subst mnl_attr_for_each.simps) (simp add: mnl_attr_ok_def)

lemma mnl_attr_ok_append:
  assumes "n \<le> int (length bs)"
  shows "mnl_attr_ok (bs @ r) n = mnl_attr_ok bs n"
proof (cases "4 \<le> n")
  case True
  with assms have "nla_len (bs @ r) = nla_len bs"
    by (simp add: nla_len_def load16_append)
  then show ?thesis by (simp add: mnl_attr_ok_def)
next
  case False
  then show ?thesis by (simp add: mnl_attr_ok_def)
qed

text \<open>The loop reads no byte beyond the distance it is given.\<close>

lemma mnl_attr_for_each_append:
  "n \<le> int (length bs) \<Longrightarrow>
     mnl_attr_for_each cb (bs @ r) n ret tb = mnl_attr_for_each cb bs n ret tb"
proof (induction cb bs n ret tb rule: mnl_attr_for_each.induct)
  case (1 cb bs n ret tb)
  note ok = mnl_attr_ok_append [OF "1.prems", of r]
  show ?case
  proof (cases "mnl_attr_ok bs n")
    case False
    with ok show ?thesis
      by (simp add: mnl_attr_for_each.simps [of cb bs] mnl_attr_for_each.simps [of cb "bs @ r"])
  next
    case True
    then have b: "4 \<le> n" "4 \<le> nla_len bs" "int (nla_len bs) \<le> n"
      by (simp_all add: mnl_attr_ok_def)
    with "1.prems" have n: "nla_len (bs @ r) = nla_len bs" "nla_len bs \<le> length bs"
      by (simp_all add: nla_len_def load16_append)
    obtain x y where c: "cb (take (nla_len bs) bs) tb = (x, y)"
      by (cases "cb (take (nla_len bs) bs) tb")
    let ?a = "MNL_ALIGN (nla_len bs)"
    have rec: "mnl_attr_for_each cb (drop ?a (bs @ r)) (n - int ?a) x y =
        mnl_attr_for_each cb (drop ?a bs) (n - int ?a) x y" if "\<not> x \<le> MNL_CB_STOP"
    proof (cases "int ?a \<le> n")
      case True
      with "1.prems" have l: "n - int ?a \<le> int (length (drop ?a bs))" "?a \<le> length bs"
        by simp_all
      from "1.IH" [OF \<open>mnl_attr_ok bs n\<close> c [symmetric] that l(1)] l(2) show ?thesis by simp
    next
      case False
      then have "n - int ?a < 4" by simp
      then show ?thesis by (simp add: mnl_attr_for_each_end)
    qed
    show ?thesis
      using True ok n c rec
      by (simp add: mnl_attr_for_each.simps [of cb bs] mnl_attr_for_each.simps [of cb "bs @ r"]
            del: drop_append)
  qed
qed

lemma to_int_le:
  assumes "- 2147483648 \<le> x"
  shows "to_int x \<le> x"
proof -
  from assms have "0 \<le> x + 2147483648" by simp
  then have "(x + 2147483648) mod 4294967296 \<le> x + 2147483648"
    by (rule zmod_le_nonneg_dividend)
  then show ?thesis by (simp add: to_int_def)
qed

lemma to_int_small: "- 2147483648 \<le> x \<Longrightarrow> x < 2147483648 \<Longrightarrow> to_int x = x"
  by (simp add: to_int_def)

lemma MNL_ALIGN_le: "MNL_ALIGN n \<le> n + 3"
  unfolding MNL_ALIGN_def by presburger

lemma MNL_ALIGN_u32_le: "MNL_ALIGN_u32 n \<le> MNL_ALIGN n"
  by (simp add: MNL_ALIGN_u32_def)

lemma MNL_ALIGN_u32_eq: "n < 2147483648 \<Longrightarrow> MNL_ALIGN_u32 n = MNL_ALIGN n"
  using MNL_ALIGN_le [of n] by (simp add: MNL_ALIGN_u32_def)

lemma nlmsg_header_append:
  assumes "16 \<le> length m"
  shows "nlmsg_len (m @ r) = nlmsg_len m" "nlmsg_type (m @ r) = nlmsg_type m"
    "nlmsg_flags (m @ r) = nlmsg_flags m"
  using assms
  by (simp_all add: nlmsg_len_def nlmsg_type_def nlmsg_flags_def load32_append load16_append)

text \<open>Parsing reads the bytes of the message up to its aligned length, and none after.\<close>

lemma mnl_attr_parse_append:
  assumes "16 \<le> length m" "MNL_ALIGN_u32 (nlmsg_len m) \<le> length m"
  shows "mnl_attr_parse (m @ r) sizeof_nfgenmsg cb tb = mnl_attr_parse m sizeof_nfgenmsg cb tb"
proof -
  let ?len = "to_int (int (MNL_ALIGN_u32 (nlmsg_len m)) - 20)"
  have le: "?len \<le> int (MNL_ALIGN_u32 (nlmsg_len m)) - 20"
    by (intro to_int_le) simp
  have k: "MNL_NLMSG_HDRLEN + MNL_ALIGN sizeof_nfgenmsg = 20"
    by (simp add: MNL_NLMSG_HDRLEN_def sizeof_nfgenmsg_def MNL_ALIGN_def)
  show ?thesis
  proof (cases "20 \<le> length m")
    case True
    with le assms(2) have "?len \<le> int (length (drop 20 m))" by simp
    from mnl_attr_for_each_append [OF this, of cb r MNL_CB_OK tb] True assms(1)
    show ?thesis
      by (simp add: mnl_attr_parse_def k nlmsg_header_append)
  next
    case False
    with le assms(2) have "?len < 4" by simp
    then show ?thesis
      using assms(1)
      by (simp add: mnl_attr_parse_def k nlmsg_header_append mnl_attr_for_each_end)
  qed
qed

lemma mnl_attr_parse_short:
  assumes "length m \<le> 20"
  shows "mnl_attr_parse m sizeof_nfgenmsg cb tb = (MNL_CB_OK, tb)"
  using assms
  by (simp add: mnl_attr_parse_def mnl_attr_for_each_Nil MNL_NLMSG_HDRLEN_def
        sizeof_nfgenmsg_def MNL_ALIGN_def)

lemma nfqueue_parse_append:
  assumes "16 \<le> length m" "MNL_ALIGN_u32 (nlmsg_len m) \<le> length m"
  shows "nfqueue_parse clk (m @ r) = nfqueue_parse clk m"
proof (cases m rule: nfqueue_parse_cases)
  case (early ret attr)
  from early(1) have "mnl_attr_parse (m @ r) sizeof_nfgenmsg parse_nfqa_attr_cb Map.empty = (ret, attr)"
    by (simp add: mnl_attr_parse_append [OF assms])
  from nfqueue_parse_early [OF this early(2)] nfqueue_parse_early [OF early]
  show ?thesis by simp
next
  case (empty ret attr hdr pl)
  have l: "20 < length m"
  proof (rule ccontr)
    assume "\<not> 20 < length m"
    then have "mnl_attr_parse m sizeof_nfgenmsg parse_nfqa_attr_cb Map.empty = (MNL_CB_OK, Map.empty)"
      by (simp add: mnl_attr_parse_short)
    with empty(1) have "attr = Map.empty" by simp
    with empty(3) show False by simp
  qed
  then have q: "load16 (mnl_nlmsg_get_payload (m @ r)) 2 = load16 (mnl_nlmsg_get_payload m) 2"
    by (simp add: mnl_nlmsg_get_payload_def MNL_NLMSG_HDRLEN_def load16_append)
  from empty(1) have "mnl_attr_parse (m @ r) sizeof_nfgenmsg parse_nfqa_attr_cb Map.empty = (ret, attr)"
    by (simp add: mnl_attr_parse_append [OF assms])
  from nfqueue_parse_empty_payload [OF this empty(2-5)] nfqueue_parse_empty_payload [OF empty] q
  show ?thesis by simp
next
  case (body ret attr hdr pl)
  have l: "20 < length m"
  proof (rule ccontr)
    assume "\<not> 20 < length m"
    then have "mnl_attr_parse m sizeof_nfgenmsg parse_nfqa_attr_cb Map.empty = (MNL_CB_OK, Map.empty)"
      by (simp add: mnl_attr_parse_short)
    with body(1) have "attr = Map.empty" by simp
    with body(3) show False by simp
  qed
  then have q: "load16 (mnl_nlmsg_get_payload (m @ r)) 2 = load16 (mnl_nlmsg_get_payload m) 2"
    by (simp add: mnl_nlmsg_get_payload_def MNL_NLMSG_HDRLEN_def load16_append)
  from body(1) have "mnl_attr_parse (m @ r) sizeof_nfgenmsg parse_nfqa_attr_cb Map.empty = (ret, attr)"
    by (simp add: mnl_attr_parse_append [OF assms])
  from nfqueue_parse_body [OF this body(2-5)] nfqueue_parse_body [OF body] q
  show ?thesis by simp
qed

lemma event_msg_length:
  assumes "event_msg m"
  shows "16 \<le> nlmsg_len m" "16 \<le> length m" "nlmsg_len m \<le> length m"
    "length m \<le> MNL_ALIGN (nlmsg_len m)"
  using assms by (simp_all add: event_msg_def MNL_NLMSG_HDRLEN_def)

lemma nfqueue_parse_event_append:
  assumes "event_msg m" "length m = MNL_ALIGN (nlmsg_len m) \<or> r = []"
  shows "nfqueue_parse clk (m @ r) = nfqueue_parse clk m"
proof (cases "r = []")
  case True
  then show ?thesis by simp
next
  case False
  with assms(2) have "MNL_ALIGN_u32 (nlmsg_len m) \<le> length m"
    using MNL_ALIGN_u32_le [of "nlmsg_len m"] by simp
  with event_msg_length(2) [OF assms(1)] show ?thesis
    by (rule nfqueue_parse_append)
qed

text \<open>One call on a buffer whose cursor is at an event: the packet is that of the event,
  and the cursor and the length left move by the aligned length of the message.\<close>

lemma nfqueue_next_on_event:
  assumes m: "event_msg m" and p: "fst (nfqueue_parse c0 m)"
    and a: "length m = MNL_ALIGN (nlmsg_len m) \<or> r = []"
    and l: "nlmsg_len m \<le> n" "n < 2147483648"
  shows "nfqueue_next clk \<lparr>data = pre @ m @ r, nlh = length pre, len = int n\<rparr> packet =
           Some (IO_READY,
                 \<lparr>data = pre @ m @ r, nlh = length pre + MNL_ALIGN (nlmsg_len m),
                   len = int n - int (MNL_ALIGN (nlmsg_len m))\<rparr>,
                 snd (nfqueue_parse clk m))"
proof -
  let ?b = "\<lparr>data = pre @ m @ r, nlh = length pre, len = int n\<rparr>"
  note e = event_msg_length [OF m]
  have d: "drop (nlh ?b) (data ?b) = m @ r" by simp
  from m have f: "nlmsg_flags m AND NLM_F_DUMP_INTR = 0" "NLMSG_MIN_TYPE \<le> nlmsg_type m"
    by (simp_all add: event_msg_def)
  from l have u: "MNL_ALIGN_u32 (nlmsg_len m) = MNL_ALIGN (nlmsg_len m)"
    by (simp add: MNL_ALIGN_u32_eq)
  have ok: "mnl_nlmsg_ok (drop (nlh ?b) (data ?b)) (len ?b)"
    using e l by (simp add: mnl_nlmsg_ok_def nlmsg_header_append to_int_id)
  have fl: "nlmsg_flags (drop (nlh ?b) (data ?b)) AND NLM_F_DUMP_INTR = 0"
    using e f by (simp add: nlmsg_header_append)
  have ty: "NLMSG_MIN_TYPE \<le> nlmsg_type (drop (nlh ?b) (data ?b))"
    using e f by (simp add: nlmsg_header_append)
  have pa: "nfqueue_parse clk (drop (nlh ?b) (data ?b)) = nfqueue_parse clk m"
    by (simp add: nfqueue_parse_event_append [OF m a])
  have su: "fst (nfqueue_parse clk m)"
    using p nfqueue_parse_fst_clock [of clk m c0] by simp
  have "to_int (int n - int (MNL_ALIGN (nlmsg_len m))) = int n - int (MNL_ALIGN (nlmsg_len m))"
    using l MNL_ALIGN_le [of "nlmsg_len m"] by (intro to_int_small) simp_all
  then have nx: "mnl_nlmsg_next ?b =
      \<lparr>data = pre @ m @ r, nlh = length pre + MNL_ALIGN (nlmsg_len m),
        len = int n - int (MNL_ALIGN (nlmsg_len m))\<rparr>"
    using e by (simp add: mnl_nlmsg_next_def Let_def nlmsg_header_append u)
  show ?thesis
    unfolding nfqueue_next_event [OF ok fl ty] pa nx using su by simp
qed

lemma nfqueue_next_calls_events:
  assumes "\<forall>m \<in> set ms. event_msg m \<and> fst (nfqueue_parse c0 m)"
    and "batch ms rest n"
    and "n < 2147483648"
    and "length clks = length ms"
  shows "nfqueue_next_calls (clks @ [clk])
           \<lparr>data = pre @ concat ms @ rest, nlh = length pre, len = int n\<rparr> packet =
         Some (map (\<lambda>(c, m). (IO_READY, snd (nfqueue_parse c m))) (zip clks ms)
               @ [(IO_NOTREADY,
                   last (packet # map (\<lambda>(c, m). snd (nfqueue_parse c m)) (zip clks ms)))])"
  using assms
proof (induction ms rest n arbitrary: clks pre packet rule: batch.induct)
  case (1 rest n)
  then show ?case
    by (simp add: nfqueue_next_exhausted mnl_nlmsg_ok_def)
next
  case (2 m rest n)
  from "2.prems"(4) obtain c where clks: "clks = [c]"
    by (cases clks) auto
  from "2.prems"(1) have m: "event_msg m" "fst (nfqueue_parse c0 m)" by auto
  from "2.prems"(2) have b: "nlmsg_len m \<le> n" "n \<le> length m"
    "length m = MNL_ALIGN (nlmsg_len m) \<or> rest = []" by auto
  let ?b = "\<lparr>data = pre @ m @ rest, nlh = length pre + MNL_ALIGN (nlmsg_len m),
             len = int n - int (MNL_ALIGN (nlmsg_len m))\<rparr>"
  have step: "nfqueue_next c \<lparr>data = pre @ m @ rest, nlh = length pre, len = int n\<rparr> packet =
      Some (IO_READY, ?b, snd (nfqueue_parse c m))"
    by (rule nfqueue_next_on_event [OF m b(3) b(1) "2.prems"(3)])
  from b(2) event_msg_length(4) [OF m(1)] have "\<not> mnl_nlmsg_ok (drop (nlh ?b) (data ?b)) (len ?b)"
    by (simp add: mnl_nlmsg_ok_def)
  then have fin: "nfqueue_next clk ?b (snd (nfqueue_parse c m)) =
      Some (IO_NOTREADY, ?b, snd (nfqueue_parse c m))"
    by (rule nfqueue_next_exhausted)
  show ?case
    using step fin by (simp add: clks)
next
  case (3 m m' ms rest n)
  from "3.prems"(4) obtain c cs where clks: "clks = c # cs" and cs: "length cs = length (m' # ms)"
    by (cases clks) auto
  from "3.prems"(1) have m: "event_msg m" "fst (nfqueue_parse c0 m)"
    and ms: "\<forall>m \<in> set (m' # ms). event_msg m \<and> fst (nfqueue_parse c0 m)" by auto
  from "3.prems"(2) have b: "length m = MNL_ALIGN (nlmsg_len m)" "length m \<le> n"
    "batch (m' # ms) rest (n - length m)" by auto
  from b(1) have a: "length m = MNL_ALIGN (nlmsg_len m) \<or> concat (m' # ms) @ rest = []" by simp
  from b(2) event_msg_length(3) [OF m(1)] have l: "nlmsg_len m \<le> n" by simp
  from "3.prems"(3) have l': "n - length m < 2147483648" by simp
  have step: "nfqueue_next c
      \<lparr>data = pre @ m @ (concat (m' # ms) @ rest), nlh = length pre, len = int n\<rparr> packet =
      Some (IO_READY,
            \<lparr>data = pre @ m @ (concat (m' # ms) @ rest),
              nlh = length pre + MNL_ALIGN (nlmsg_len m),
              len = int n - int (MNL_ALIGN (nlmsg_len m))\<rparr>,
            snd (nfqueue_parse c m))"
    by (rule nfqueue_next_on_event [OF m a l "3.prems"(3)])
  have IH: "nfqueue_next_calls (cs @ [clk])
      \<lparr>data = (pre @ m) @ concat (m' # ms) @ rest, nlh = length (pre @ m),
        len = int (n - length m)\<rparr> (snd (nfqueue_parse c m)) =
      Some (map (\<lambda>(c, m). (IO_READY, snd (nfqueue_parse c m))) (zip cs (m' # ms))
            @ [(IO_NOTREADY,
                last (snd (nfqueue_parse c m)
                      # map (\<lambda>(c, m). snd (nfqueue_parse c m)) (zip cs (m' # ms))))])"
    by (rule "3.IH" [OF ms b(3) l' cs])
  from b(1,2) have e: "int n - int (MNL_ALIGN (nlmsg_len m)) = int (n - length m)"
    "length pre + MNL_ALIGN (nlmsg_len m) = length (pre @ m)" by simp_all
  show ?case
    using step IH unfolding e by (simp add: clks)
qed

subsection \<open>The example events, parsed\<close>

lemma ev_msg_parse:
  "nfqueue_parse c ev_msg =
     (True, zero_packet\<lparr>queue_num := 5, packet_id := 7, hw_protocol := 2048, payload_len := 4,
        payload := Some [69, 0, 0, 20], mono_time := clock_monotonic_raw c,
        wall_time := clock_realtime c\<rparr>)"
proof -
  let ?hdr = "[11,0, 1,0, 0,0,0,7, 8,0, 1] :: byte list"
  let ?pl = "[8,0, 10,0, 69,0,0,20] :: byte list"
  let ?attr = "[NFQA_PACKET_HDR \<mapsto> ?hdr, NFQA_PAYLOAD \<mapsto> ?pl]"
  have a: "mnl_attr_parse ev_msg sizeof_nfgenmsg parse_nfqa_attr_cb Map.empty = (1, ?attr)"
    by (simp add: ev_msg_def attr_defs load_defs const_defs parse_nfqa_attr_cb_def
          mnl_attr_for_each.simps)
  have h: "\<not> (1::int) < 0" "?attr NFQA_PACKET_HDR = Some ?hdr" "?attr NFQA_PAYLOAD = Some ?pl"
    "mnl_attr_get_payload_len ?pl \<noteq> 0"
    by (simp_all add: attr_defs load_defs const_defs)
  have ct: "nfqueue_parse_ct ?attr p = (True, p\<lparr>has_conntrack := False\<rparr>)" for p
    by (simp add: nfqueue_parse_ct_def nfqueue_parse_ct_info_def const_defs)
  have v: "ntohs (load16 (mnl_nlmsg_get_payload ev_msg) 2) = 5"
    "ntohl (load32 (mnl_attr_get_payload ?hdr) 0) = 7"
    "ntohs (load16 (mnl_attr_get_payload ?hdr) 4) = 2048"
    "mnl_attr_get_payload_len ?pl = 4"
    "mnl_attr_get_payload ?pl = [69, 0, 0, 20]"
    "?attr NFQA_TIMESTAMP = None"
    by (simp_all add: ev_msg_def attr_defs load_defs const_defs ntohs_def ntohl_def htons_def
          htonl_def)
  show ?thesis
    unfolding nfqueue_parse_body [OF a h] ct v by (simp add: zero_packet_def)
qed

text \<open>The second event has a payload of five bytes and no padding after it; \<open>stale\<close> is
  what the buffer holds where the padding would be.\<close>

lemma ev_msg2_parse:
  "nfqueue_parse c ev_msg2 =
     (True, zero_packet\<lparr>queue_num := 5, packet_id := 9, hw_protocol := 2048, payload_len := 5,
        payload := Some [69, 0, 0, 20, 1], mono_time := clock_monotonic_raw c,
        wall_time := clock_realtime c\<rparr>)"
proof -
  let ?hdr = "[11,0, 1,0, 0,0,0,9, 8,0, 1] :: byte list"
  let ?pl = "[9,0, 10,0, 69,0,0,20,1] :: byte list"
  let ?attr = "[NFQA_PACKET_HDR \<mapsto> ?hdr, NFQA_PAYLOAD \<mapsto> ?pl]"
  have a: "mnl_attr_parse ev_msg2 sizeof_nfgenmsg parse_nfqa_attr_cb Map.empty = (1, ?attr)"
    by (simp add: ev_msg2_def attr_defs load_defs const_defs parse_nfqa_attr_cb_def
          mnl_attr_for_each.simps)
  have h: "\<not> (1::int) < 0" "?attr NFQA_PACKET_HDR = Some ?hdr" "?attr NFQA_PAYLOAD = Some ?pl"
    "mnl_attr_get_payload_len ?pl \<noteq> 0"
    by (simp_all add: attr_defs load_defs const_defs)
  have ct: "nfqueue_parse_ct ?attr p = (True, p\<lparr>has_conntrack := False\<rparr>)" for p
    by (simp add: nfqueue_parse_ct_def nfqueue_parse_ct_info_def const_defs)
  have v: "ntohs (load16 (mnl_nlmsg_get_payload ev_msg2) 2) = 5"
    "ntohl (load32 (mnl_attr_get_payload ?hdr) 0) = 9"
    "ntohs (load16 (mnl_attr_get_payload ?hdr) 4) = 2048"
    "mnl_attr_get_payload_len ?pl = 5"
    "mnl_attr_get_payload ?pl = [69, 0, 0, 20, 1]"
    "?attr NFQA_TIMESTAMP = None"
    by (simp_all add: ev_msg2_def attr_defs load_defs const_defs ntohs_def ntohl_def htons_def
          htonl_def)
  show ?thesis
    unfolding nfqueue_parse_body [OF a h] ct v by (simp add: zero_packet_def)
qed

lemma ev_msg2_stale_parse:
  "nfqueue_parse c (ev_msg2 @ stale) =
     (True, zero_packet\<lparr>queue_num := 5, packet_id := 9, hw_protocol := 2048, payload_len := 5,
        payload := Some [69, 0, 0, 20, 1], mono_time := clock_monotonic_raw c,
        wall_time := clock_realtime c\<rparr>)"
proof -
  let ?hdr = "[11,0, 1,0, 0,0,0,9, 8,0, 1] :: byte list"
  let ?pl = "[9,0, 10,0, 69,0,0,20,1] :: byte list"
  let ?attr = "[NFQA_PACKET_HDR \<mapsto> ?hdr, NFQA_PAYLOAD \<mapsto> ?pl]"
  have a: "mnl_attr_parse (ev_msg2 @ stale) sizeof_nfgenmsg parse_nfqa_attr_cb Map.empty =
      (1, ?attr)"
    by (simp add: ev_msg2_def stale_def attr_defs load_defs const_defs parse_nfqa_attr_cb_def
          mnl_attr_for_each.simps)
  have h: "\<not> (1::int) < 0" "?attr NFQA_PACKET_HDR = Some ?hdr" "?attr NFQA_PAYLOAD = Some ?pl"
    "mnl_attr_get_payload_len ?pl \<noteq> 0"
    by (simp_all add: attr_defs load_defs const_defs)
  have ct: "nfqueue_parse_ct ?attr p = (True, p\<lparr>has_conntrack := False\<rparr>)" for p
    by (simp add: nfqueue_parse_ct_def nfqueue_parse_ct_info_def const_defs)
  have v: "ntohs (load16 (mnl_nlmsg_get_payload (ev_msg2 @ stale)) 2) = 5"
    "ntohl (load32 (mnl_attr_get_payload ?hdr) 0) = 9"
    "ntohs (load16 (mnl_attr_get_payload ?hdr) 4) = 2048"
    "mnl_attr_get_payload_len ?pl = 5"
    "mnl_attr_get_payload ?pl = [69, 0, 0, 20, 1]"
    "?attr NFQA_TIMESTAMP = None"
    by (simp_all add: ev_msg2_def stale_def attr_defs load_defs const_defs ntohs_def ntohl_def
          htons_def htonl_def)
  show ?thesis
    unfolding nfqueue_parse_body [OF a h] ct v by (simp add: zero_packet_def)
qed

lemma ev_msg_event:
  "event_msg ev_msg" "event_msg ev_msg2" "event_msg (ev_msg2 @ stale)"
  by (simp_all add: event_msg_def ev_msg_def ev_msg2_def stale_def attr_defs
        load_defs const_defs)

lemma ev_msg_nlmsg_len:
  "nlmsg_len ev_msg = 40" "nlmsg_len ev_msg2 = 41" "nlmsg_len (ev_msg2 @ stale) = 41"
  by (simp_all add: ev_msg_def ev_msg2_def stale_def nlmsg_len_def load_defs)


subsection \<open>Byte order\<close>

lemma replicate_num: "replicate (numeral k) x = x # replicate (pred_numeral k) x"
  by (simp add: numeral_eq_Suc)

lemma length_put [simp]:
  "length (put_u8 x) = 1" "length (put_u16 y) = 2" "length (put_u32 z) = 4"
  by (simp_all add: put_u8_def put_u16_def put_u32_def)

lemma length_be [simp]: "length (be16 x) = 2" "length (be32 y) = 4"
  by (simp_all add: be16_def be32_def)

lemma htons_lt: "htons x < 65536"
proof -
  have "x mod 256 \<le> 255" "x div 256 mod 256 \<le> 255" by simp_all
  then show ?thesis unfolding htons_def by linarith
qed

lemma htons_bytes: "htons x mod 256 = x div 256 mod 256" "htons x div 256 = x mod 256"
  by (simp_all add: htons_def)

lemma put_u16_htons: "put_u16 (htons x) = be16 x"
  by (simp add: put_u16_def be16_def htons_bytes)

lemma htonl_halves:
  "htonl x mod 65536 = htons (x div 65536 mod 65536)"
  "htonl x div 65536 = htons (x mod 65536)"
  using htons_lt [of "x div 65536 mod 65536"] by (simp_all add: htonl_def)

lemma byte_of_halves:
  "(x::nat) div 65536 mod 65536 div 256 mod 256 = x div 16777216 mod 256"
  "(x::nat) div 65536 mod 65536 mod 256 = x div 65536 mod 256"
  "(x::nat) mod 65536 div 256 mod 256 = x div 256 mod 256"
  "(x::nat) mod 65536 mod 256 = x mod 256"
proof -
  have "x div 65536 mod 65536 div 256 = x div 65536 div 256 mod 256"
    using mod_mult2_eq [of "x div 65536" 256 256] by simp
  then show "x div 65536 mod 65536 div 256 mod 256 = x div 16777216 mod 256"
    by (simp add: div_mult2_eq [symmetric])
  show "x div 65536 mod 65536 mod 256 = x div 65536 mod 256"
    by (simp add: mod_mod_cancel)
  have "x mod 65536 div 256 = x div 256 mod 256"
    using mod_mult2_eq [of x 256 256] by simp
  then show "x mod 65536 div 256 mod 256 = x div 256 mod 256" by simp
  show "x mod 65536 mod 256 = x mod 256"
    by (simp add: mod_mod_cancel)
qed

lemma put_u32_htonl: "put_u32 (htonl x) = be32 x"
proof -
  have h: "htonl x div 65536 mod 65536 = htons (x mod 65536)"
    using htons_lt [of "x mod 65536"] by (simp add: htonl_halves)
  have "put_u32 (htonl x) =
      put_u16 (htons (x div 65536 mod 65536)) @ put_u16 (htons (x mod 65536))"
    by (simp only: put_u32_def htonl_halves(1) h)
  also have "\<dots> = be16 (x div 65536 mod 65536) @ be16 (x mod 65536)"
    by (simp only: put_u16_htons)
  also have "\<dots> = be32 x"
  proof -
    have "x div 65536 div 256 = x div 16777216"
      by (simp add: div_mult2_eq [symmetric])
    then show ?thesis
      by (simp add: be16_def be32_def byte_of_halves)
  qed
  finally show ?thesis .
qed

subsection \<open>The encoder, run\<close>

lemmas num_defs =
  put_u8_def [of "numeral k" for k] put_u8_def [of 0] put_u8_def [of 1] put_u8_def [of "Suc 0"]
  put_u16_def [of "numeral k" for k] put_u16_def [of 0] put_u16_def [of 1]
  put_u16_def [of "Suc 0"]
  put_u32_def [of "numeral k" for k] put_u32_def [of 0] put_u32_def [of 1]
  to_u16_def [of "numeral k" for k] to_u16_def [of 0] to_u16_def [of 1]

lemmas build_defs =
  set_nlmsg_len_def set_nlmsg_type_def set_nlmsg_flags_def MNL_ALIGN_def MNL_ALIGN_u32_def
  MNL_ALIGN_size_def nlmsg_len_def mnl_nlmsg_put_header_def mnl_nlmsg_put_extra_header_def
  mnl_attr_put_def mnl_attr_put_check_def mnl_attr_put_u32_check_def mnl_attr_nest_start_def
  mnl_attr_nest_start_check_def mnl_attr_nest_end_def MNL_ATTR_HDRLEN_def NLA_F_NESTED_def
  sizeof_nfgenmsg_def write_at_def peek_def load16_def load32_def
  NFNL_SUBSYS_QUEUE_def NFQNL_MSG_VERDICT_def NFQNL_MSG_CONFIG_def NLM_F_REQUEST_def
  AF_UNSPEC_def NFNETLINK_V0_def NFQA_VERDICT_HDR_def NFQA_CT_def CTA_MARK_def
  NFQA_CFG_CMD_def NFQA_CFG_PARAMS_def NFQA_CFG_QUEUE_MAXLEN_def NFQA_CFG_MASK_def
  NFQA_CFG_FLAGS_def

lemma nfqueue_put_header_eq:
  "nfqueue_put_header B q t =
     (if B < 20 then None
      else Some ([20, 0, 0, 0] @ put_u16 (to_u16 (768 OR t))
                 @ [1, 0,  0, 0, 0, 0,  0, 0, 0, 0,  0, 0] @ be16 (to_u16 q)))"
  by (simp add: nfqueue_put_header_def build_defs num_defs Let_def replicate_num put_u16_htons)

lemma nfqueue_send_verdict_connmark_none:
  assumes "32 \<le> B" "cm < 0"
  shows "nfqueue_send_verdict_connmark B nl q pid v cm st =
     (case mnl_socket_sendto nl (verdict_msg q pid v None) 32 st of
        (ret, st') \<Rightarrow> nfqueue_send_end ret st')"
proof -
  have h: "nfqueue_put_header B q NFQNL_MSG_VERDICT =
      Some (20 # 0 # 0 # 0 # 1 # 3 # 1 # 0 # 0 # 0 # 0 # 0 # 0 # 0 # 0 # 0 # 0 # 0
            # be16 (to_u16 q))"
    using assms(1) by (simp add: nfqueue_put_header_eq NFQNL_MSG_VERDICT_def num_defs)
  have s1: "mnl_attr_put_check
      (20 # 0 # 0 # 0 # 1 # 3 # 1 # 0 # 0 # 0 # 0 # 0 # 0 # 0 # 0 # 0 # 0 # 0
       # be16 (to_u16 q)) B NFQA_VERDICT_HDR 8
      (put_u32 (htonl (to_u32 v)) @ put_u32 (htonl pid)) =
      (True, verdict_msg q pid v None)"
    using assms(1)
    by (simp add: build_defs num_defs Let_def replicate_num put_u32_htonl verdict_msg_def)
  have l: "nlmsg_len (verdict_msg q pid v None) = 32"
    by (simp add: verdict_msg_def nlmsg_len_def load32_def load16_def peek_def)
  show ?thesis
    using assms(2)
    by (simp add: nfqueue_send_verdict_connmark_def Let_def h s1 l)
qed

lemma nfqueue_send_verdict_connmark_some:
  assumes "44 \<le> B" "0 \<le> cm"
  shows "nfqueue_send_verdict_connmark B nl q pid v cm st =
     (case mnl_socket_sendto nl (verdict_msg q pid v (Some (to_u32 cm))) 44 st of
        (ret, st') \<Rightarrow> nfqueue_send_end ret st')"
proof -
  let ?q = "be16 (to_u16 q)"
  let ?m36 = "36 # 0 # 0 # 0 # 1 # 3 # 1 # 0 # 0 # 0 # 0 # 0 # 0 # 0 # 0 # 0 # 0 # 0 # ?q
              @ 12 # 0 # 2 # 0 # be32 (to_u32 v) @ be32 pid @ [0, 0, 11, 128]"
  let ?m44 = "44 # 0 # 0 # 0 # 1 # 3 # 1 # 0 # 0 # 0 # 0 # 0 # 0 # 0 # 0 # 0 # 0 # 0 # ?q
              @ 12 # 0 # 2 # 0 # be32 (to_u32 v) @ be32 pid
              @ 0 # 0 # 11 # 128 # 8 # 0 # 8 # 0 # be32 (to_u32 cm)"
  have h: "nfqueue_put_header B q NFQNL_MSG_VERDICT =
      Some (20 # 0 # 0 # 0 # 1 # 3 # 1 # 0 # 0 # 0 # 0 # 0 # 0 # 0 # 0 # 0 # 0 # 0 # ?q)"
    using assms(1) by (simp add: nfqueue_put_header_eq NFQNL_MSG_VERDICT_def num_defs)
  have s1: "mnl_attr_put_check
      (20 # 0 # 0 # 0 # 1 # 3 # 1 # 0 # 0 # 0 # 0 # 0 # 0 # 0 # 0 # 0 # 0 # 0 # ?q)
      B NFQA_VERDICT_HDR 8 (put_u32 (htonl (to_u32 v)) @ put_u32 (htonl pid)) =
      (True, verdict_msg q pid v None)"
    using assms(1)
    by (simp add: build_defs num_defs Let_def replicate_num put_u32_htonl verdict_msg_def)
  have s2: "mnl_attr_nest_start_check (verdict_msg q pid v None) B NFQA_CT = Some (?m36, 32)"
    using assms(1)
    by (simp add: build_defs num_defs Let_def replicate_num verdict_msg_def)
  have s3: "mnl_attr_put_u32_check ?m36 B CTA_MARK (htonl (to_u32 cm)) = (True, ?m44)"
    using assms(1)
    by (simp add: build_defs num_defs Let_def replicate_num put_u32_htonl)
  have s4: "mnl_attr_nest_end ?m44 32 = verdict_msg q pid v (Some (to_u32 cm))"
    by (simp add: build_defs num_defs Let_def replicate_num verdict_msg_def)
  have l: "nlmsg_len (verdict_msg q pid v (Some (to_u32 cm))) = 44"
    by (simp add: verdict_msg_def nlmsg_len_def load32_def load16_def peek_def)
  show ?thesis
    by (simp only: nfqueue_send_verdict_connmark_def Let_def h s1 s2 s3 s4 l assms(2)
          option.case prod.case if_True if_False not_True_eq_False)
qed

lemma sent_after_sendto:
  "sent (snd (case mnl_socket_sendto nl msg n st of (ret, st') \<Rightarrow> nfqueue_send_end ret st')) =
     sent st @ [take n msg]"
  by (simp add: mnl_socket_sendto_def nfqueue_send_end_def Let_def split: option.split)

lemma length_verdict_msg:
  "length (verdict_msg q pid v None) = 32" "length (verdict_msg q pid v (Some m)) = 44"
  by (simp_all add: verdict_msg_def)

lemma sent_nfqueue_verdict:
  "sent (snd (nfqueue_verdict B \<lparr>q_queue_num = q, nl_socket = nl\<rparr> pid v cm st)) =
     sent (snd (nfqueue_send_verdict_connmark B nl q pid v cm st))"
  by (simp add: nfqueue_verdict_def case_prod_beta)


subsection \<open>Commands that do not fit\<close>

text \<open>
  What the three encoders do when the command does not fit a buffer of \<open>B\<close> bytes. The
  tests of \<open>nfqueue_put_header\<close> fail when \<open>B\<close> is below the 20 bytes of the header and
  the sub-header; the encoders then return at once, before the label that sets \<open>errno\<close>.
  This cannot happen with \<open>SEND_BUF_LEN\<close>, which is never that small. Every attribute that
  does not fit leads to the label.
\<close>

lemma nfqueue_send_command_short:
  assumes "data_size < 9223372036854775808" "B < command_size data_size"
  shows "nfqueue_send_command B nl q t a d data_size st =
     (if B < 20 then (BUF_TOO_SHORT, st) else (BUF_TOO_SHORT, st\<lparr>errno := ENOBUFS\<rparr>))"
proof (cases "B < 20")
  case True
  then show ?thesis
    by (simp add: nfqueue_send_command_def nfqueue_put_header_eq)
next
  case False
  have "MNL_ALIGN data_size \<le> data_size + 3"
    unfolding MNL_ALIGN_def by presburger
  with assms(1) have m: "MNL_ALIGN_size data_size = MNL_ALIGN data_size"
    by (simp add: MNL_ALIGN_size_def)
  have l: "nlmsg_len ([20, 0, 0, 0] @ r) = 20" for r
    by (simp add: nlmsg_len_def load32_def load16_def peek_def)
  from assms(1) m \<open>MNL_ALIGN data_size \<le> data_size + 3\<close>
  have "(20 + MNL_ATTR_HDRLEN + MNL_ALIGN_size data_size) mod 18446744073709551616 =
      24 + MNL_ALIGN data_size"
    by (simp add: MNL_ATTR_HDRLEN_def)
  with assms(2) have c: "mnl_attr_put_check ([20, 0, 0, 0] @ r) B a data_size d =
      (False, [20, 0, 0, 0] @ r)" for r
    unfolding mnl_attr_put_check_def l by (simp add: command_size_def)
  show ?thesis
    using False
    by (simp only: nfqueue_send_command_def nfqueue_put_header_eq Let_def if_False option.case c
          prod.case not_False_eq_True if_True nfqueue_send_end_def refl)
qed

lemma nfqueue_send_verdict_connmark_short:
  assumes "B < verdict_connmark_size cm"
  shows "nfqueue_send_verdict_connmark B nl q pid v cm st =
     (if B < 20 then (BUF_TOO_SHORT, st) else (BUF_TOO_SHORT, st\<lparr>errno := ENOBUFS\<rparr>))"
proof (cases "B < 20")
  case True
  then show ?thesis
    by (simp add: nfqueue_send_verdict_connmark_def nfqueue_put_header_eq)
next
  case False
  let ?q = "be16 (to_u16 q)"
  let ?h = "20 # 0 # 0 # 0 # 1 # 3 # 1 # 0 # 0 # 0 # 0 # 0 # 0 # 0 # 0 # 0 # 0 # 0 # ?q"
  let ?m36 = "36 # 0 # 0 # 0 # 1 # 3 # 1 # 0 # 0 # 0 # 0 # 0 # 0 # 0 # 0 # 0 # 0 # 0 # ?q
              @ 12 # 0 # 2 # 0 # be32 (to_u32 v) @ be32 pid @ [0, 0, 11, 128]"
  have h: "nfqueue_put_header B q NFQNL_MSG_VERDICT = Some ?h"
    using False by (simp add: nfqueue_put_header_eq NFQNL_MSG_VERDICT_def num_defs)
  have s1: "mnl_attr_put_check ?h B NFQA_VERDICT_HDR 8
      (put_u32 (htonl (to_u32 v)) @ put_u32 (htonl pid)) =
      (if B < 32 then (False, ?h) else (True, verdict_msg q pid v None))"
    by (simp add: build_defs num_defs Let_def replicate_num put_u32_htonl verdict_msg_def)
  have s2: "mnl_attr_nest_start_check (verdict_msg q pid v None) B NFQA_CT =
      (if B < 36 then None else Some (?m36, 32))"
    by (simp add: build_defs num_defs Let_def replicate_num verdict_msg_def)
  have s3: "B < 44 \<Longrightarrow> mnl_attr_put_u32_check ?m36 B CTA_MARK (htonl (to_u32 cm)) = (False, ?m36)"
    by (simp add: build_defs num_defs Let_def replicate_num put_u32_htonl)
  show ?thesis
  proof (cases "B < 32")
    case True
    with False show ?thesis
      by (simp add: nfqueue_send_verdict_connmark_def Let_def h s1 nfqueue_send_end_def)
  next
    case b: False
    with assms have c: "0 \<le> cm" "B < 44"
      by (simp_all add: verdict_connmark_size_def split: if_splits)
    show ?thesis
    proof (cases "B < 36")
      case True
      with False b c show ?thesis
        by (simp add: nfqueue_send_verdict_connmark_def Let_def h s1 s2 nfqueue_send_end_def)
    next
      case False
      with \<open>\<not> B < 20\<close> b c show ?thesis
        by (simp add: nfqueue_send_verdict_connmark_def Let_def h s1 s2 s3 nfqueue_send_end_def)
    qed
  qed
qed

lemma nfqueue_set_params_short:
  assumes "B < set_params_size maxlen flags"
  shows "nfqueue_set_params B nl q mode rng maxlen flags st =
     (if B < 20 then (BUF_TOO_SHORT, st) else (BUF_TOO_SHORT, st\<lparr>errno := ENOBUFS\<rparr>))"
proof (cases "B < 20")
  case True
  then show ?thesis
    by (simp add: nfqueue_set_params_def nfqueue_put_header_eq)
next
  case False
  have h: "nfqueue_put_header B q NFQNL_MSG_CONFIG =
      Some (20 # 0 # 0 # 0 # 2 # 3 # 1 # 0 # 0 # 0 # 0 # 0 # 0 # 0 # 0 # 0 # 0 # 0 # be16 (to_u16 q))"
    using False by (simp add: nfqueue_put_header_eq NFQNL_MSG_CONFIG_def num_defs)
  have s1: "mnl_attr_put_check
      (20 # 0 # 0 # 0 # 2 # 3 # 1 # 0 # 0 # 0 # 0 # 0 # 0 # 0 # 0 # 0 # 0 # 0 # be16 (to_u16 q))
      B NFQA_CFG_PARAMS 5 (put_u32 (htonl (to_u32 rng)) @ put_u8 mode) =
      (if B < 32 then (False, 20 # 0 # 0 # 0 # 2 # 3 # 1 # 0 # 0 # 0 # 0 # 0 # 0 # 0 # 0 # 0 # 0 # 0 # be16 (to_u16 q))
       else (True, 32 # 0 # 0 # 0 # 2 # 3 # 1 # 0 # 0 # 0 # 0 # 0 # 0 # 0 # 0 # 0 # 0 # 0 # be16 (to_u16 q)
       @ 9 # 0 # 2 # 0 # be32 (to_u32 rng) @ put_u8 mode @ 0 # 0 # 0 # []))"
    by (simp add: build_defs num_defs Let_def replicate_num put_u32_htonl)
  have s2: "mnl_attr_put_u32_check
      (32 # 0 # 0 # 0 # 2 # 3 # 1 # 0 # 0 # 0 # 0 # 0 # 0 # 0 # 0 # 0 # 0 # 0 # be16 (to_u16 q)
       @ 9 # 0 # 2 # 0 # be32 (to_u32 rng) @ put_u8 mode @ 0 # 0 # 0 # []) B ty x =
      (if B < 40 then (False, 32 # 0 # 0 # 0 # 2 # 3 # 1 # 0 # 0 # 0 # 0 # 0 # 0 # 0 # 0 # 0 # 0 # 0 # be16 (to_u16 q)
       @ 9 # 0 # 2 # 0 # be32 (to_u32 rng) @ put_u8 mode @ 0 # 0 # 0 # [])
       else (True, 40 # 0 # 0 # 0 # 2 # 3 # 1 # 0 # 0 # 0 # 0 # 0 # 0 # 0 # 0 # 0 # 0 # 0 # be16 (to_u16 q)
       @ 9 # 0 # 2 # 0 # be32 (to_u32 rng) @ put_u8 mode @ 0 # 0 # 0 # 8 # 0 # put_u16 ty @ put_u32 x))" for ty x
    by (simp add: build_defs num_defs Let_def replicate_num)
  have s3: "mnl_attr_put_u32_check
      (40 # 0 # 0 # 0 # 2 # 3 # 1 # 0 # 0 # 0 # 0 # 0 # 0 # 0 # 0 # 0 # 0 # 0 # be16 (to_u16 q)
       @ 9 # 0 # 2 # 0 # be32 (to_u32 rng) @ put_u8 mode @ 0 # 0 # 0 # 8 # 0 # put_u16 ty @ put_u32 x) B ty' y =
      (if B < 48 then (False, 40 # 0 # 0 # 0 # 2 # 3 # 1 # 0 # 0 # 0 # 0 # 0 # 0 # 0 # 0 # 0 # 0 # 0 # be16 (to_u16 q)
       @ 9 # 0 # 2 # 0 # be32 (to_u32 rng) @ put_u8 mode @ 0 # 0 # 0 # 8 # 0 # put_u16 ty @ put_u32 x)
       else (True, 48 # 0 # 0 # 0 # 2 # 3 # 1 # 0 # 0 # 0 # 0 # 0 # 0 # 0 # 0 # 0 # 0 # 0 # be16 (to_u16 q)
       @ 9 # 0 # 2 # 0 # be32 (to_u32 rng) @ put_u8 mode @ 0 # 0 # 0 # 8 # 0 # put_u16 ty @ put_u32 x
       @ 8 # 0 # put_u16 ty' @ put_u32 y))"
    for ty x ty' y
    by (simp add: build_defs num_defs Let_def replicate_num)
  have s4: "B < 56 \<Longrightarrow> mnl_attr_put_u32_check
      (48 # 0 # 0 # 0 # 2 # 3 # 1 # 0 # 0 # 0 # 0 # 0 # 0 # 0 # 0 # 0 # 0 # 0 # be16 (to_u16 q)
       @ 9 # 0 # 2 # 0 # be32 (to_u32 rng) @ put_u8 mode @ 0 # 0 # 0 # 8 # 0 # put_u16 ty @ put_u32 x
       @ 8 # 0 # put_u16 ty' @ put_u32 y) B ty'' z =
      (False, 48 # 0 # 0 # 0 # 2 # 3 # 1 # 0 # 0 # 0 # 0 # 0 # 0 # 0 # 0 # 0 # 0 # 0 # be16 (to_u16 q)
       @ 9 # 0 # 2 # 0 # be32 (to_u32 rng) @ put_u8 mode @ 0 # 0 # 0 # 8 # 0 # put_u16 ty @ put_u32 x
       @ 8 # 0 # put_u16 ty' @ put_u32 y)"
    for ty x ty' y ty'' z
    by (simp add: build_defs num_defs Let_def replicate_num)
  have b: "B < 56" using assms by (simp add: set_params_size_def split: if_splits)
  show ?thesis
    using False assms b
    by (cases "maxlen > 0"; cases "flags = 0"; cases "B < 32"; cases "B < 40"; cases "B < 48")
       (simp_all add: nfqueue_set_params_def Let_def h s1 s2 s3 s4 nfqueue_send_end_def
          set_params_size_def)
qed

section \<open>Iteration: the dump-interrupted flag, reserved types, repeated errors\<close>

text \<open>
  C7. When the message at the cursor is complete and has the dump-interrupted flag set,
  \<open>nfqueue_next\<close> returns \<open>IO_ERROR\<close> and leaves the buffer as it was: the cursor and
  the remaining length still address that message (and the packet record is untouched).
\<close>

theorem nfqueue_next_dump_interrupted:
  assumes "mnl_nlmsg_ok (drop (nlh buf) (data buf)) (len buf)"
    and "nlmsg_flags (drop (nlh buf) (data buf)) AND NLM_F_DUMP_INTR \<noteq> 0"
  shows "nfqueue_next clk buf packet = Some (IO_ERROR, buf, packet)"
  using assms by (rule nfqueue_next_intr)

theorem nfqueue_next_dump_interrupted_witness:
  "mnl_nlmsg_ok (drop (nlh \<lparr>data = intr_msg @ ev_msg, nlh = 0, len = 80\<rparr>)
                      (data \<lparr>data = intr_msg @ ev_msg, nlh = 0, len = 80\<rparr>))
                (len \<lparr>data = intr_msg @ ev_msg, nlh = 0, len = 80\<rparr>)
   \<and> nlmsg_flags (drop (nlh \<lparr>data = intr_msg @ ev_msg, nlh = 0, len = 80\<rparr>)
                       (data \<lparr>data = intr_msg @ ev_msg, nlh = 0, len = 80\<rparr>))
        AND NLM_F_DUMP_INTR \<noteq> 0
   \<and> nfqueue_next clk0 \<lparr>data = intr_msg @ ev_msg, nlh = 0, len = 80\<rparr> zero_packet =
        Some (IO_ERROR, \<lparr>data = intr_msg @ ev_msg, nlh = 0, len = 80\<rparr>, zero_packet)"
proof -
  let ?b = "\<lparr>data = intr_msg @ ev_msg, nlh = 0, len = 80\<rparr>"
  have h1: "mnl_nlmsg_ok (drop (nlh ?b) (data ?b)) (len ?b)"
    by (simp add: intr_msg_def attr_defs load_defs)
  have h2: "nlmsg_flags (drop (nlh ?b) (data ?b)) AND NLM_F_DUMP_INTR \<noteq> 0"
    by (simp add: intr_msg_def attr_defs load_defs const_defs)
  from h1 h2 nfqueue_next_dump_interrupted [OF h1 h2, of clk0 zero_packet]
  show ?thesis by blast
qed

text \<open>
  C1. The claim is that a complete message of a reserved type (below \<open>NLMSG_MIN_TYPE\<close>,
  flag clear) is skipped and the scan goes on to the next message. The loop of
  \<open>nfqueue_next\<close> does not move the cursor for such a message, so it tests the same
  message for ever: on the buffer that holds a netlink error message followed by a packet
  event, the call never returns (\<open>None\<close>), where the claim has it return \<open>IO_READY\<close> with
  the event.
\<close>

theorem nfqueue_next_reserved_type_never_returns:
  "nfqueue_next clk0 \<lparr>data = err_msg @ ev_msg, nlh = 0, len = 76\<rparr> zero_packet = None"
  by (rule nfqueue_next_reserved_type_None)
     (simp_all add: err_msg_def attr_defs load_defs const_defs)

text \<open>
  C9. When \<open>nfqueue_next\<close> returns \<open>IO_ERROR\<close> because \<open>nfqueue_parse\<close> failed on the
  message at the cursor, the buffer it returns is the buffer it was given, and a further
  call on it (at any later clock reading, with any packet record) parses the same
  message and returns \<open>IO_ERROR\<close> again.
\<close>

theorem nfqueue_next_parse_error_repeats:
  assumes "mnl_nlmsg_ok (drop (nlh buf) (data buf)) (len buf)"
    and "nlmsg_flags (drop (nlh buf) (data buf)) AND NLM_F_DUMP_INTR = 0"
    and "NLMSG_MIN_TYPE \<le> nlmsg_type (drop (nlh buf) (data buf))"
    and "\<not> fst (nfqueue_parse clk (drop (nlh buf) (data buf)))"
  shows "nfqueue_next clk buf packet =
           Some (IO_ERROR, buf, snd (nfqueue_parse clk (drop (nlh buf) (data buf))))
         \<and> nfqueue_next clk' buf packet' =
           Some (IO_ERROR, buf, snd (nfqueue_parse clk' (drop (nlh buf) (data buf))))"
proof -
  from assms(4) have "\<not> fst (nfqueue_parse clk' (drop (nlh buf) (data buf)))"
    using nfqueue_parse_fst_clock [of clk "drop (nlh buf) (data buf)" clk'] by simp
  with assms show ?thesis by (simp add: nfqueue_next_event)
qed

theorem nfqueue_next_parse_error_repeats_witness:
  "nfqueue_next clk0 \<lparr>data = no_payload_msg @ ev_msg, nlh = 0, len = 72\<rparr> zero_packet =
     Some (IO_ERROR, \<lparr>data = no_payload_msg @ ev_msg, nlh = 0, len = 72\<rparr>,
           zero_packet\<lparr>mono_time := (100, 5), wall_time := (1700000000, 9)\<rparr>)
   \<and> nfqueue_next clk1 \<lparr>data = no_payload_msg @ ev_msg, nlh = 0, len = 72\<rparr>
        (zero_packet\<lparr>mono_time := (100, 5), wall_time := (1700000000, 9)\<rparr>) =
     Some (IO_ERROR, \<lparr>data = no_payload_msg @ ev_msg, nlh = 0, len = 72\<rparr>,
           zero_packet\<lparr>mono_time := (101, 6), wall_time := (1700000001, 10)\<rparr>)"
proof -
  let ?b = "\<lparr>data = no_payload_msg @ ev_msg, nlh = 0, len = 72\<rparr>"
  have a: "mnl_attr_parse (no_payload_msg @ ev_msg) sizeof_nfgenmsg parse_nfqa_attr_cb Map.empty =
      (1, [NFQA_PACKET_HDR \<mapsto> [11,0, 1,0, 0,0,0,7, 8,0, 1]])"
    by (simp add: no_payload_msg_def attr_defs load_defs const_defs parse_nfqa_attr_cb_def
          mnl_attr_for_each.simps)
  have p: "nfqueue_parse c (no_payload_msg @ ev_msg) =
      (False, zero_packet\<lparr>mono_time := clock_monotonic_raw c, wall_time := clock_realtime c\<rparr>)"
    for c
    using nfqueue_parse_early [OF a, of c] by (simp add: const_defs)
  have h1: "mnl_nlmsg_ok (drop (nlh ?b) (data ?b)) (len ?b)"
    by (simp add: no_payload_msg_def attr_defs load_defs)
  have h2: "nlmsg_flags (drop (nlh ?b) (data ?b)) AND NLM_F_DUMP_INTR = 0"
    by (simp add: no_payload_msg_def attr_defs load_defs const_defs)
  have h3: "NLMSG_MIN_TYPE \<le> nlmsg_type (drop (nlh ?b) (data ?b))"
    by (simp add: no_payload_msg_def attr_defs load_defs const_defs)
  have h4: "\<not> fst (nfqueue_parse clk0 (drop (nlh ?b) (data ?b)))"
    by (simp add: p)
  from nfqueue_next_parse_error_repeats [OF h1 h2 h3 h4, of zero_packet clk1
      "zero_packet\<lparr>mono_time := (100, 5), wall_time := (1700000000, 9)\<rparr>"]
  show ?thesis by (simp add: p clk0_def clk1_def)
qed

section \<open>Iteration over a batch of events\<close>

text \<open>
  C2. The receive buffer holds exactly the well-formed event messages \<open>ms\<close>, one after
  the other (application type, dump-interrupted flag clear, each accepted by
  \<open>nfqueue_parse\<close>), followed by whatever the rest of the data region holds; \<open>n\<close> bytes
  were received, which end with the last message or within its padding. Then
  \<open>length ms + 1\<close> calls of \<open>nfqueue_next\<close> all return: the first \<open>length ms\<close> return
  \<open>IO_READY\<close>, the \<open>i\<close>-th with the packet record of the \<open>i\<close>-th message (parsed at the
  clock reading of that call), and the last returns \<open>IO_NOTREADY\<close> and leaves the packet
  record as the call before it left it. (The received length is an \<open>int\<close>.)
\<close>

theorem nfqueue_next_yields_events_in_order:
  assumes "\<forall>m \<in> set ms. event_msg m \<and> fst (nfqueue_parse c0 m)"
    and "batch ms rest n"
    and "n < 2147483648"
    and "length clks = length ms"
  shows "nfqueue_next_calls (clks @ [clk])
           \<lparr>data = concat ms @ rest, nlh = 0, len = int n\<rparr> packet =
         Some (map (\<lambda>(c, m). (IO_READY, snd (nfqueue_parse c m))) (zip clks ms)
               @ [(IO_NOTREADY,
                   last (packet # map (\<lambda>(c, m). snd (nfqueue_parse c m)) (zip clks ms)))])"
  using nfqueue_next_calls_events [OF assms, of clk "[]" packet] by simp

text \<open>
  Two events in one buffer, the second without padding: 81 bytes were received, and the
  data region either goes on with stale bytes or ends with the message.
\<close>

theorem nfqueue_next_yields_events_in_order_witness:
  "nfqueue_next_calls [clk0, clk1, clk1]
     \<lparr>data = ev_msg @ ev_msg2 @ stale @ [255], nlh = 0, len = 81\<rparr> zero_packet =
   Some [(IO_READY,
          zero_packet\<lparr>queue_num := 5, packet_id := 7, hw_protocol := 2048, payload_len := 4,
            payload := Some [69, 0, 0, 20], mono_time := (100, 5),
            wall_time := (1700000000, 9)\<rparr>),
         (IO_READY,
          zero_packet\<lparr>queue_num := 5, packet_id := 9, hw_protocol := 2048, payload_len := 5,
            payload := Some [69, 0, 0, 20, 1], mono_time := (101, 6),
            wall_time := (1700000001, 10)\<rparr>),
         (IO_NOTREADY,
          zero_packet\<lparr>queue_num := 5, packet_id := 9, hw_protocol := 2048, payload_len := 5,
            payload := Some [69, 0, 0, 20, 1], mono_time := (101, 6),
            wall_time := (1700000001, 10)\<rparr>)]
   \<and> nfqueue_next_calls [clk0, clk1, clk1]
       \<lparr>data = ev_msg @ ev_msg2, nlh = 0, len = 81\<rparr> zero_packet =
     Some [(IO_READY,
            zero_packet\<lparr>queue_num := 5, packet_id := 7, hw_protocol := 2048, payload_len := 4,
              payload := Some [69, 0, 0, 20], mono_time := (100, 5),
              wall_time := (1700000000, 9)\<rparr>),
           (IO_READY,
            zero_packet\<lparr>queue_num := 5, packet_id := 9, hw_protocol := 2048, payload_len := 5,
              payload := Some [69, 0, 0, 20, 1], mono_time := (101, 6),
              wall_time := (1700000001, 10)\<rparr>),
           (IO_NOTREADY,
            zero_packet\<lparr>queue_num := 5, packet_id := 9, hw_protocol := 2048, payload_len := 5,
              payload := Some [69, 0, 0, 20, 1], mono_time := (101, 6),
              wall_time := (1700000001, 10)\<rparr>)]"
proof -
  have l: "length ev_msg = 40" "length ev_msg2 = 41" "length stale = 3"
    by (simp_all add: ev_msg_def ev_msg2_def stale_def)
  have h1: "\<forall>m \<in> set [ev_msg, ev_msg2 @ stale]. event_msg m \<and> fst (nfqueue_parse clk0 m)"
    by (simp add: ev_msg_event ev_msg_parse ev_msg2_stale_parse)
  have h2: "batch [ev_msg, ev_msg2 @ stale] [255] 81"
    by (simp add: ev_msg_nlmsg_len l MNL_ALIGN_def)
  have g1: "\<forall>m \<in> set [ev_msg, ev_msg2]. event_msg m \<and> fst (nfqueue_parse clk0 m)"
    by (simp add: ev_msg_event ev_msg_parse ev_msg2_parse)
  have g2: "batch [ev_msg, ev_msg2] [] 81"
    by (simp add: ev_msg_nlmsg_len l MNL_ALIGN_def)
  have h3: "(81::nat) < 2147483648" "length [clk0, clk1] = length [ev_msg, ev_msg2 @ stale]"
    "length [clk0, clk1] = length [ev_msg, ev_msg2]"
    by simp_all
  from nfqueue_next_yields_events_in_order [OF h1 h2 h3(1,2), of clk1 zero_packet]
    nfqueue_next_yields_events_in_order [OF g1 g2 h3(1,3), of clk1 zero_packet]
  show ?thesis
    by (simp add: ev_msg_parse ev_msg2_parse ev_msg2_stale_parse clk0_def clk1_def)
qed

section \<open>Packet assembly: mandatory attributes, payload on failure, timestamp, families\<close>

text \<open>
  C8. \<open>nfqueue_parse\<close> fails whenever the attribute index it has built from the message
  has no packet-metaheader entry, no payload entry, or a payload entry whose payload
  length is zero; nothing is assumed of the result of the attribute walk or of the
  other attributes.
\<close>

theorem nfqueue_parse_mandatory_attributes:
  assumes "mnl_attr_parse m sizeof_nfgenmsg parse_nfqa_attr_cb Map.empty = (ret, attr)"
    and "attr NFQA_PACKET_HDR = None \<or> attr NFQA_PAYLOAD = None
         \<or> (\<exists>pl. attr NFQA_PAYLOAD = Some pl \<and> mnl_attr_get_payload_len pl = 0)"
  shows "\<not> fst (nfqueue_parse clk m)"
proof (cases m rule: nfqueue_parse_cases)
  case (early ret' attr')
  then show ?thesis by (simp add: nfqueue_parse_early)
next
  case (empty ret' attr' hdr pl)
  then show ?thesis by (simp add: nfqueue_parse_empty_payload)
next
  case (body ret' attr' hdr pl)
  with assms show ?thesis by auto
qed

theorem nfqueue_parse_mandatory_attributes_witness:
  "mnl_attr_parse empty_payload_msg sizeof_nfgenmsg parse_nfqa_attr_cb Map.empty =
     (1, [NFQA_PACKET_HDR \<mapsto> [11,0, 1,0, 0,0,0,7, 8,0, 1], NFQA_PAYLOAD \<mapsto> [4,0, 10,0]])
   \<and> mnl_attr_get_payload_len [4,0, 10,0] = 0
   \<and> \<not> fst (nfqueue_parse clk0 empty_payload_msg)"
proof -
  have a: "mnl_attr_parse empty_payload_msg sizeof_nfgenmsg parse_nfqa_attr_cb Map.empty =
     (1, [NFQA_PACKET_HDR \<mapsto> [11,0, 1,0, 0,0,0,7, 8,0, 1], NFQA_PAYLOAD \<mapsto> [4,0, 10,0]])"
    by (simp add: empty_payload_msg_def attr_defs load_defs const_defs parse_nfqa_attr_cb_def
          mnl_attr_for_each.simps)
  have l: "mnl_attr_get_payload_len [4,0, 10,0] = 0"
    by (simp add: attr_defs load_defs const_defs)
  have d: "[NFQA_PACKET_HDR \<mapsto> [11,0, 1,0, 0,0,0,7, 8,0, 1], NFQA_PAYLOAD \<mapsto> [4,0, 10,0]]
             NFQA_PACKET_HDR = None
         \<or> [NFQA_PACKET_HDR \<mapsto> [11,0, 1,0, 0,0,0,7, 8,0, 1], NFQA_PAYLOAD \<mapsto> [4,0, 10,0]]
             NFQA_PAYLOAD = None
         \<or> (\<exists>pl. [NFQA_PACKET_HDR \<mapsto> [11,0, 1,0, 0,0,0,7, 8,0, 1], NFQA_PAYLOAD \<mapsto> [4,0, 10,0]]
                   NFQA_PAYLOAD = Some pl \<and> mnl_attr_get_payload_len pl = 0)"
    using l by simp
  from a l nfqueue_parse_mandatory_attributes [OF a d, of clk0] show ?thesis by simp
qed

text \<open>
  C10. When \<open>nfqueue_parse\<close> fails on a message whose payload it has already copied
  (the attribute walk succeeded, metaheader and payload are present, the payload is not
  empty), the packet record it leaves holds the copy: \<open>payload\<close> is not \<open>NULL\<close> and
  \<open>payload_len\<close> is not zero. \<open>nfqueue_next\<close> hands that record back with \<open>IO_ERROR\<close>,
  not \<open>IO_READY\<close>.
\<close>

theorem nfqueue_parse_failure_keeps_payload:
  assumes "mnl_nlmsg_ok (drop (nlh buf) (data buf)) (len buf)"
    and "nlmsg_flags (drop (nlh buf) (data buf)) AND NLM_F_DUMP_INTR = 0"
    and "NLMSG_MIN_TYPE \<le> nlmsg_type (drop (nlh buf) (data buf))"
    and "mnl_attr_parse (drop (nlh buf) (data buf)) sizeof_nfgenmsg parse_nfqa_attr_cb Map.empty
           = (ret, attr)"
    and "\<not> ret < 0" "attr NFQA_PACKET_HDR = Some hdr" "attr NFQA_PAYLOAD = Some pl"
    and "mnl_attr_get_payload_len pl \<noteq> 0"
    and "\<not> fst (nfqueue_parse clk (drop (nlh buf) (data buf)))"
  shows "payload (snd (nfqueue_parse clk (drop (nlh buf) (data buf)))) =
           Some (take (mnl_attr_get_payload_len pl) (mnl_attr_get_payload pl))
         \<and> payload_len (snd (nfqueue_parse clk (drop (nlh buf) (data buf)))) =
             mnl_attr_get_payload_len pl
         \<and> payload_len (snd (nfqueue_parse clk (drop (nlh buf) (data buf)))) \<noteq> 0
         \<and> nfqueue_next clk buf packet =
             Some (IO_ERROR, buf, snd (nfqueue_parse clk (drop (nlh buf) (data buf))))"
proof -
  have "payload (snd (nfqueue_parse clk (drop (nlh buf) (data buf)))) =
           Some (take (mnl_attr_get_payload_len pl) (mnl_attr_get_payload pl))"
    and "payload_len (snd (nfqueue_parse clk (drop (nlh buf) (data buf)))) =
             mnl_attr_get_payload_len pl"
    unfolding nfqueue_parse_body [OF assms(4-8)]
    by (simp_all add: nfqueue_parse_ct_fields)
  with assms show ?thesis by (simp add: nfqueue_next_event)
qed

theorem nfqueue_parse_failure_keeps_payload_witness:
  "nfqueue_next clk0 \<lparr>data = ct_bad_mark_msg, nlh = 0, len = 52\<rparr> zero_packet =
     Some (IO_ERROR, \<lparr>data = ct_bad_mark_msg, nlh = 0, len = 52\<rparr>,
           snd (nfqueue_parse clk0 ct_bad_mark_msg))
   \<and> \<not> fst (nfqueue_parse clk0 ct_bad_mark_msg)
   \<and> payload (snd (nfqueue_parse clk0 ct_bad_mark_msg)) = Some [69,0,0,20]
   \<and> payload_len (snd (nfqueue_parse clk0 ct_bad_mark_msg)) = 4"
proof -
  let ?b = "\<lparr>data = ct_bad_mark_msg, nlh = 0, len = 52\<rparr>"
  let ?hdr = "[11,0, 1,0, 0,0,0,7, 8,0, 1] :: byte list"
  let ?pl = "[8,0, 10,0, 69,0,0,20] :: byte list"
  let ?ct = "[12,0, 11,128, 6,0, 8,0, 0,1, 0,0] :: byte list"
  let ?attr = "[NFQA_PACKET_HDR \<mapsto> ?hdr, NFQA_PAYLOAD \<mapsto> ?pl, NFQA_CT \<mapsto> ?ct]"
  have a: "mnl_attr_parse (drop (nlh ?b) (data ?b)) sizeof_nfgenmsg parse_nfqa_attr_cb Map.empty
      = (1, ?attr)"
    by (simp add: ct_bad_mark_msg_def attr_defs load_defs const_defs parse_nfqa_attr_cb_def
          mnl_attr_for_each.simps)
  have h1: "mnl_nlmsg_ok (drop (nlh ?b) (data ?b)) (len ?b)"
    by (simp add: ct_bad_mark_msg_def attr_defs load_defs)
  have h2: "nlmsg_flags (drop (nlh ?b) (data ?b)) AND NLM_F_DUMP_INTR = 0"
    by (simp add: ct_bad_mark_msg_def attr_defs load_defs const_defs)
  have h3: "NLMSG_MIN_TYPE \<le> nlmsg_type (drop (nlh ?b) (data ?b))"
    by (simp add: ct_bad_mark_msg_def attr_defs load_defs const_defs)
  have h5: "\<not> (1::int) < 0" by simp
  have h6: "?attr NFQA_PACKET_HDR = Some ?hdr" by (simp add: const_defs)
  have h7: "?attr NFQA_PAYLOAD = Some ?pl" by (simp add: const_defs)
  have h8: "mnl_attr_get_payload_len ?pl \<noteq> 0" by (simp add: attr_defs load_defs const_defs)
  have ct: "mnl_attr_parse_nested ?ct parse_cta_attr_cb Map.empty = (- 1, Map.empty)"
    by (simp add: attr_defs load_defs const_defs parse_cta_attr_cb_def mnl_attr_for_each.simps)
  have h9: "\<not> fst (nfqueue_parse clk0 (drop (nlh ?b) (data ?b)))"
    unfolding nfqueue_parse_body [OF a h5 h6 h7 h8]
    by (simp add: nfqueue_parse_ct_def ct const_defs)
  from nfqueue_parse_failure_keeps_payload [OF h1 h2 h3 a h5 h6 h7 h8 h9, of zero_packet] h9
  show ?thesis by (simp add: attr_defs load_defs const_defs)
qed

text \<open>
  C4. Take a message whose attribute index holds a timestamp attribute with both fields
  zero, and a message that differs from it in having no timestamp entry (same result of
  the attribute walk, same other entries, same queue number field). \<open>nfqueue_parse\<close>
  gives the same result on both, with \<open>has_timestamp\<close> false and \<open>timestamp\<close> zero.
  And on every message, whatever its timestamp, the wall-clock and monotonic fields of
  the record hold what the two clocks read at that call.
\<close>

theorem nfqueue_parse_zero_timestamp:
  assumes "mnl_attr_parse m sizeof_nfgenmsg parse_nfqa_attr_cb Map.empty = (ret, attr)"
    and "mnl_attr_parse m' sizeof_nfgenmsg parse_nfqa_attr_cb Map.empty = (ret, attr')"
    and "attr NFQA_TIMESTAMP = Some ts"
    and "load64 (mnl_attr_get_payload ts) 0 = 0" "load64 (mnl_attr_get_payload ts) 8 = 0"
    and "attr' = attr(NFQA_TIMESTAMP := None)"
    and "load16 (mnl_nlmsg_get_payload m') 2 = load16 (mnl_nlmsg_get_payload m) 2"
  shows "nfqueue_parse clk m = nfqueue_parse clk m'
         \<and> \<not> has_timestamp (snd (nfqueue_parse clk m))
         \<and> timestamp (snd (nfqueue_parse clk m)) = \<lparr>tv_sec = 0, tv_usec = 0\<rparr>
         \<and> mono_time (snd (nfqueue_parse clk'' m'')) = clock_monotonic_raw clk''
         \<and> wall_time (snd (nfqueue_parse clk'' m'')) = clock_realtime clk''"
proof -
  have e: "attr' NFQA_PACKET_HDR = attr NFQA_PACKET_HDR" "attr' NFQA_PAYLOAD = attr NFQA_PAYLOAD"
    "attr' NFQA_CT = attr NFQA_CT" "attr' NFQA_CT_INFO = attr NFQA_CT_INFO"
    "attr' NFQA_TIMESTAMP = None"
    by (simp_all add: assms(6) const_defs)
  have "nfqueue_parse clk m = nfqueue_parse clk m'
         \<and> \<not> has_timestamp (snd (nfqueue_parse clk m))
         \<and> timestamp (snd (nfqueue_parse clk m)) = \<lparr>tv_sec = 0, tv_usec = 0\<rparr>"
  proof (cases "ret < 0 \<or> attr NFQA_PACKET_HDR = None \<or> attr NFQA_PAYLOAD = None")
    case True
    then have "ret < 0 \<or> attr' NFQA_PACKET_HDR = None \<or> attr' NFQA_PAYLOAD = None"
      by (simp add: e)
    with True show ?thesis
      by (simp add: nfqueue_parse_early [OF assms(1)] nfqueue_parse_early [OF assms(2)]
            zero_packet_def)
  next
    case False
    then obtain hdr pl where h: "\<not> ret < 0" "attr NFQA_PACKET_HDR = Some hdr"
      "attr NFQA_PAYLOAD = Some pl" by auto
    then have h': "\<not> ret < 0" "attr' NFQA_PACKET_HDR = Some hdr" "attr' NFQA_PAYLOAD = Some pl"
      by (simp_all add: e)
    show ?thesis
    proof (cases "mnl_attr_get_payload_len pl = 0")
      case True
      then show ?thesis
        by (simp add: nfqueue_parse_empty_payload [OF assms(1) h]
              nfqueue_parse_empty_payload [OF assms(2) h'] assms(7) zero_packet_def)
    next
      case False
      show ?thesis
        unfolding nfqueue_parse_body [OF assms(1) h False] nfqueue_parse_body [OF assms(2) h' False]
        by (simp add: nfqueue_parse_ct_fields assms(3,4,5,7) e(5) zero_packet_def
              nfqueue_parse_ct_cong [OF e(3,4)])
    qed
  qed
  with nfqueue_parse_clocks [of clk'' m''] show ?thesis by blast
qed

theorem nfqueue_parse_zero_timestamp_witness:
  "nfqueue_parse clk0 ts0_msg = nfqueue_parse clk0 ev_msg
   \<and> \<not> has_timestamp (snd (nfqueue_parse clk0 ts0_msg))
   \<and> timestamp (snd (nfqueue_parse clk0 ts0_msg)) = \<lparr>tv_sec = 0, tv_usec = 0\<rparr>
   \<and> mono_time (snd (nfqueue_parse clk1 ts1_msg)) = (101, 6)
   \<and> wall_time (snd (nfqueue_parse clk1 ts1_msg)) = (1700000001, 10)"
proof -
  let ?hdr = "[11,0, 1,0, 0,0,0,7, 8,0, 1] :: byte list"
  let ?pl = "[8,0, 10,0, 69,0,0,20] :: byte list"
  let ?ts = "[20,0, 4,0, 0,0,0,0,0,0,0,0, 0,0,0,0,0,0,0,0] :: byte list"
  let ?attr = "[NFQA_PACKET_HDR \<mapsto> ?hdr, NFQA_PAYLOAD \<mapsto> ?pl, NFQA_TIMESTAMP \<mapsto> ?ts]"
  let ?attr' = "[NFQA_PACKET_HDR \<mapsto> ?hdr, NFQA_PAYLOAD \<mapsto> ?pl]"
  have a: "mnl_attr_parse ts0_msg sizeof_nfgenmsg parse_nfqa_attr_cb Map.empty = (1, ?attr)"
    by (simp add: ts0_msg_def attr_defs load_defs const_defs parse_nfqa_attr_cb_def
          mnl_attr_for_each.simps)
  have a': "mnl_attr_parse ev_msg sizeof_nfgenmsg parse_nfqa_attr_cb Map.empty = (1, ?attr')"
    by (simp add: ev_msg_def attr_defs load_defs const_defs parse_nfqa_attr_cb_def
          mnl_attr_for_each.simps)
  have t: "?attr NFQA_TIMESTAMP = Some ?ts" by simp
  have z: "load64 (mnl_attr_get_payload ?ts) 0 = 0" "load64 (mnl_attr_get_payload ?ts) 8 = 0"
    by (simp_all add: attr_defs load_defs const_defs)
  have u: "?attr' = ?attr(NFQA_TIMESTAMP := None)"
    by (simp add: const_defs)
  have q: "load16 (mnl_nlmsg_get_payload ev_msg) 2 = load16 (mnl_nlmsg_get_payload ts0_msg) 2"
    by (simp add: ev_msg_def ts0_msg_def attr_defs load_defs const_defs)
  have c: "clock_monotonic_raw clk1 = (101, 6)" "clock_realtime clk1 = (1700000001, 10)"
    by (simp_all add: clk1_def)
  show ?thesis
    unfolding c [symmetric]
    by (rule nfqueue_parse_zero_timestamp [OF a a' t z u q])
qed

text \<open>
  C5. A tuple attribute is given whose IP sub-block, as \<open>read_addr_tuple\<close> indexes it,
  holds an IPv4 attribute (source or destination) together with an IPv6 attribute
  (source or destination). \<open>read_addr_tuple\<close> fails on it, from whatever tuple it starts;
  and \<open>nfqueue_parse\<close> fails on every message whose conntrack attribute holds that tuple
  as its original or its reply tuple.
\<close>

theorem read_addr_tuple_family_mismatch:
  assumes "mnl_attr_parse_nested t parse_tuple_cb Map.empty = (ret2, attr2)"
    and "attr2 CTA_TUPLE_IP = Some ip"
    and "mnl_attr_parse_nested ip parse_ip_cb Map.empty = (ret3, attr3)"
    and "attr3 CTA_IP_V4_SRC \<noteq> None \<or> attr3 CTA_IP_V4_DST \<noteq> None"
    and "attr3 CTA_IP_V6_SRC \<noteq> None \<or> attr3 CTA_IP_V6_DST \<noteq> None"
    and "mnl_attr_parse m sizeof_nfgenmsg parse_nfqa_attr_cb Map.empty = (ret, attr)"
    and "attr NFQA_CT = Some ct"
    and "mnl_attr_parse_nested ct parse_cta_attr_cb Map.empty = (ret1, attr1)"
    and "attr1 CTA_TUPLE_ORIG = Some t \<or> attr1 CTA_TUPLE_REPLY = Some t"
  shows "\<not> fst (read_addr_tuple t tuple) \<and> \<not> fst (nfqueue_parse clk m)"
proof -
  have r: "\<not> fst (read_addr_tuple t tuple')" for tuple'
    using assms(1-5) by (rule read_addr_tuple_mixed)
  have "\<not> fst (nfqueue_parse clk m)"
  proof (cases m rule: nfqueue_parse_cases)
    case (early ret' attr')
    then show ?thesis by (simp add: nfqueue_parse_early)
  next
    case (empty ret' attr' hdr pl)
    then show ?thesis by (simp add: nfqueue_parse_empty_payload)
  next
    case (body ret' attr' hdr pl)
    with assms(6) have "attr' = attr" by simp
    with body assms(7-9) r show ?thesis
      by (simp add: nfqueue_parse_body [OF body] nfqueue_parse_ct_tuple_fails)
  qed
  with r show ?thesis by simp
qed

theorem read_addr_tuple_family_mismatch_witness:
  "\<not> fst (read_addr_tuple
             [36,0, 1,128, 32,0, 1,128, 8,0, 1,0, 10,0,0,1,
              20,0, 4,0, 32,1,13,184, 0,0,0,0, 0,0,0,0, 0,0,0,1] zero_ip_tuple)
   \<and> \<not> fst (nfqueue_parse clk0 ct_mixed_msg)"
proof -
  let ?ip = "[32,0, 1,128, 8,0, 1,0, 10,0,0,1,
              20,0, 4,0, 32,1,13,184, 0,0,0,0, 0,0,0,0, 0,0,0,1] :: byte list"
  let ?t = "[36,0, 1,128] @ ?ip"
  let ?ct = "[40,0, 11,128] @ ?t"
  let ?hdr = "[11,0, 1,0, 0,0,0,7, 8,0, 1] :: byte list"
  let ?pl = "[8,0, 10,0, 69,0,0,20] :: byte list"
  have a: "mnl_attr_parse ct_mixed_msg sizeof_nfgenmsg parse_nfqa_attr_cb Map.empty =
      (1, [NFQA_PACKET_HDR \<mapsto> ?hdr, NFQA_PAYLOAD \<mapsto> ?pl, NFQA_CT \<mapsto> ?ct])"
    by (simp add: ct_mixed_msg_def attr_defs load_defs const_defs parse_nfqa_attr_cb_def
          mnl_attr_for_each.simps)
  have c: "[NFQA_PACKET_HDR \<mapsto> ?hdr, NFQA_PAYLOAD \<mapsto> ?pl, NFQA_CT \<mapsto> ?ct] NFQA_CT = Some ?ct"
    by simp
  have a1: "mnl_attr_parse_nested ?ct parse_cta_attr_cb Map.empty = (1, [CTA_TUPLE_ORIG \<mapsto> ?t])"
    by (simp add: attr_defs load_defs const_defs parse_cta_attr_cb_def mnl_attr_for_each.simps)
  have o: "[CTA_TUPLE_ORIG \<mapsto> ?t] CTA_TUPLE_ORIG = Some ?t
           \<or> [CTA_TUPLE_ORIG \<mapsto> ?t] CTA_TUPLE_REPLY = Some ?t"
    by simp
  have a2: "mnl_attr_parse_nested ?t parse_tuple_cb Map.empty = (1, [CTA_TUPLE_IP \<mapsto> ?ip])"
    by (simp add: attr_defs load_defs const_defs parse_tuple_cb_def mnl_attr_for_each.simps)
  have i: "[CTA_TUPLE_IP \<mapsto> ?ip] CTA_TUPLE_IP = Some ?ip" by simp
  have a3: "mnl_attr_parse_nested ?ip parse_ip_cb Map.empty =
      (1, [CTA_IP_V4_SRC \<mapsto> [8,0, 1,0, 10,0,0,1],
           CTA_IP_V6_DST \<mapsto> [20,0, 4,0, 32,1,13,184, 0,0,0,0, 0,0,0,0, 0,0,0,1]])"
    by (simp add: attr_defs load_defs const_defs parse_ip_cb_def mnl_attr_for_each.simps)
  have v4: "[CTA_IP_V4_SRC \<mapsto> [8,0, 1,0, 10,0,0,1],
             CTA_IP_V6_DST \<mapsto> [20,0, 4,0, 32,1,13,184, 0,0,0,0, 0,0,0,0, 0,0,0,1 :: byte]]
              CTA_IP_V4_SRC \<noteq> None
          \<or> [CTA_IP_V4_SRC \<mapsto> [8,0, 1,0, 10,0,0,1],
             CTA_IP_V6_DST \<mapsto> [20,0, 4,0, 32,1,13,184, 0,0,0,0, 0,0,0,0, 0,0,0,1 :: byte]]
              CTA_IP_V4_DST \<noteq> None"
    by (simp add: const_defs)
  have v6: "[CTA_IP_V4_SRC \<mapsto> [8,0, 1,0, 10,0,0,1],
             CTA_IP_V6_DST \<mapsto> [20,0, 4,0, 32,1,13,184, 0,0,0,0, 0,0,0,0, 0,0,0,1 :: byte]]
              CTA_IP_V6_SRC \<noteq> None
          \<or> [CTA_IP_V4_SRC \<mapsto> [8,0, 1,0, 10,0,0,1],
             CTA_IP_V6_DST \<mapsto> [20,0, 4,0, 32,1,13,184, 0,0,0,0, 0,0,0,0, 0,0,0,1 :: byte]]
              CTA_IP_V6_DST \<noteq> None"
    by (simp add: const_defs)
  from read_addr_tuple_family_mismatch [OF a2 i a3 v4 v6 a c a1 o, of zero_ip_tuple clk0]
  show ?thesis by simp
qed


section \<open>Encoding a verdict\<close>

text \<open>
  C3. With room for the message in the scratch buffer, \<open>nfqueue_send_verdict_connmark\<close>
  (and \<open>nfqueue_verdict\<close>, which calls it) hands exactly one datagram to the socket. For
  every negative \<open>connmark\<close>, \<open>-1\<close> among them, it is the 32-byte verdict message with no
  nested tracking-context attribute. For every \<open>connmark\<close> from 0 to 4294967295, both
  ends included, it is the 44-byte message that ends in the nested attribute
  (\<open>NFQA_CT\<close>, nested flag) holding the \<open>CTA_MARK\<close> attribute, whose four payload bytes are
  the mark in big-endian order.
\<close>

theorem verdict_connmark_encoding:
  "(32 \<le> SEND_BUF_LEN \<and> connmark < 0 \<longrightarrow>
      sent (snd (nfqueue_send_verdict_connmark SEND_BUF_LEN nl q pid v connmark st)) =
        sent st @ [verdict_msg q pid v None]
      \<and> sent (snd (nfqueue_verdict SEND_BUF_LEN \<lparr>q_queue_num = q, nl_socket = nl\<rparr>
                     pid v connmark st)) =
        sent st @ [verdict_msg q pid v None])
   \<and> (44 \<le> SEND_BUF_LEN \<and> 0 \<le> connmark \<and> connmark \<le> 4294967295 \<longrightarrow>
      sent (snd (nfqueue_send_verdict_connmark SEND_BUF_LEN nl q pid v connmark st)) =
        sent st @ [verdict_msg q pid v (Some (nat connmark))]
      \<and> sent (snd (nfqueue_verdict SEND_BUF_LEN \<lparr>q_queue_num = q, nl_socket = nl\<rparr>
                     pid v connmark st)) =
        sent st @ [verdict_msg q pid v (Some (nat connmark))])"
proof (intro conjI impI)
  assume a: "32 \<le> SEND_BUF_LEN \<and> connmark < 0"
  then show n: "sent (snd (nfqueue_send_verdict_connmark SEND_BUF_LEN nl q pid v connmark st)) =
      sent st @ [verdict_msg q pid v None]"
    by (simp add: nfqueue_send_verdict_connmark_none sent_after_sendto length_verdict_msg)
  show "sent (snd (nfqueue_verdict SEND_BUF_LEN \<lparr>q_queue_num = q, nl_socket = nl\<rparr>
                     pid v connmark st)) = sent st @ [verdict_msg q pid v None]"
    unfolding sent_nfqueue_verdict by (rule n)
next
  assume a: "44 \<le> SEND_BUF_LEN \<and> 0 \<le> connmark \<and> connmark \<le> 4294967295"
  then have u: "to_u32 connmark = nat connmark" by (simp add: to_u32_def)
  from a show s: "sent (snd (nfqueue_send_verdict_connmark SEND_BUF_LEN nl q pid v connmark st)) =
      sent st @ [verdict_msg q pid v (Some (nat connmark))]"
    by (simp add: nfqueue_send_verdict_connmark_some sent_after_sendto length_verdict_msg u)
  show "sent (snd (nfqueue_verdict SEND_BUF_LEN \<lparr>q_queue_num = q, nl_socket = nl\<rparr>
                     pid v connmark st)) =
      sent st @ [verdict_msg q pid v (Some (nat connmark))]"
    unfolding sent_nfqueue_verdict by (rule s)
qed

theorem verdict_connmark_encoding_witness:
  "sent (snd (nfqueue_send_verdict_connmark 8192 (\<lambda>_. None) 5 7 1 (- 1)
                \<lparr>sent = [], errno = 0\<rparr>)) =
     [[32,0,0,0, 1,3, 1,0, 0,0,0,0, 0,0,0,0,  0,0, 0,5,
       12,0, 2,0, 0,0,0,1, 0,0,0,7]]
   \<and> sent (snd (nfqueue_send_verdict_connmark 8192 (\<lambda>_. None) 5 7 1 0
                  \<lparr>sent = [], errno = 0\<rparr>)) =
     [[44,0,0,0, 1,3, 1,0, 0,0,0,0, 0,0,0,0,  0,0, 0,5,
       12,0, 2,0, 0,0,0,1, 0,0,0,7,
       12,0, 11,128, 8,0, 8,0, 0,0,0,0]]
   \<and> sent (snd (nfqueue_send_verdict_connmark 8192 (\<lambda>_. None) 5 7 1 4294967295
                  \<lparr>sent = [], errno = 0\<rparr>)) =
     [[44,0,0,0, 1,3, 1,0, 0,0,0,0, 0,0,0,0,  0,0, 0,5,
       12,0, 2,0, 0,0,0,1, 0,0,0,7,
       12,0, 11,128, 8,0, 8,0, 255,255,255,255]]
   \<and> sent (snd (nfqueue_send_verdict_connmark 8192 (\<lambda>_. None) 5 7 1 305419896
                  \<lparr>sent = [], errno = 0\<rparr>)) =
     [[44,0,0,0, 1,3, 1,0, 0,0,0,0, 0,0,0,0,  0,0, 0,5,
       12,0, 2,0, 0,0,0,1, 0,0,0,7,
       12,0, 11,128, 8,0, 8,0, 18,52,86,120]]"
proof -
  have m: "verdict_msg 5 7 1 None =
      [32,0,0,0, 1,3, 1,0, 0,0,0,0, 0,0,0,0,  0,0, 0,5, 12,0, 2,0, 0,0,0,1, 0,0,0,7]"
    "verdict_msg 5 7 1 (Some (nat 0)) =
      [44,0,0,0, 1,3, 1,0, 0,0,0,0, 0,0,0,0,  0,0, 0,5, 12,0, 2,0, 0,0,0,1, 0,0,0,7,
       12,0, 11,128, 8,0, 8,0, 0,0,0,0]"
    "verdict_msg 5 7 1 (Some (nat 4294967295)) =
      [44,0,0,0, 1,3, 1,0, 0,0,0,0, 0,0,0,0,  0,0, 0,5, 12,0, 2,0, 0,0,0,1, 0,0,0,7,
       12,0, 11,128, 8,0, 8,0, 255,255,255,255]"
    "verdict_msg 5 7 1 (Some (nat 305419896)) =
      [44,0,0,0, 1,3, 1,0, 0,0,0,0, 0,0,0,0,  0,0, 0,5, 12,0, 2,0, 0,0,0,1, 0,0,0,7,
       12,0, 11,128, 8,0, 8,0, 18,52,86,120]"
    by (simp_all add: verdict_msg_def be16_def be32_def to_u16_def to_u32_def)
  have h: "(32::nat) \<le> 8192 \<and> (- 1 :: int) < 0" "(44::nat) \<le> 8192 \<and> (0::int) \<le> 0 \<and> (0::int) \<le> 4294967295"
    "(44::nat) \<le> 8192 \<and> (0::int) \<le> 4294967295 \<and> (4294967295::int) \<le> 4294967295"
    "(44::nat) \<le> 8192 \<and> (0::int) \<le> 305419896 \<and> (305419896::int) \<le> 4294967295"
    by simp_all
  from verdict_connmark_encoding [of 8192 "- 1" "\<lambda>_. None" 5 7 1 "\<lparr>sent = [], errno = 0\<rparr>"]
    verdict_connmark_encoding [of 8192 0 "\<lambda>_. None" 5 7 1 "\<lparr>sent = [], errno = 0\<rparr>"]
    verdict_connmark_encoding [of 8192 4294967295 "\<lambda>_. None" 5 7 1 "\<lparr>sent = [], errno = 0\<rparr>"]
    verdict_connmark_encoding [of 8192 305419896 "\<lambda>_. None" 5 7 1 "\<lparr>sent = [], errno = 0\<rparr>"]
    h
  show ?thesis unfolding m [symmetric] by simp
qed

section \<open>Commands that exceed the scratch buffer\<close>

text \<open>
  C6. The scratch buffer has \<open>SEND_BUF_LEN\<close> bytes, which is \<open>MNL_SOCKET_BUFFER_SIZE\<close>, the
  smaller of the page size and 8192: the netlink header and the sub-header, 20 bytes,
  fit it in every build. \<open>data_size\<close> is the size of the structure that a caller hands
  over (\<open>sizeof(cmd)\<close>, \<open>sizeof(vh)\<close>), the size of an object, hence below \<open>2^63\<close>. When the
  header and the attributes of a command together exceed the buffer,
  \<open>nfqueue_send_command\<close>, \<open>nfqueue_set_params\<close> and \<open>nfqueue_send_verdict_connmark\<close>
  return \<open>BUF_TOO_SHORT\<close> and leave the state as it was but for \<open>errno\<close>, which is
  \<open>ENOBUFS\<close>: nothing was handed to the socket.
\<close>

theorem encoding_out_of_space:
  assumes "MNL_NLMSG_HDRLEN + MNL_ALIGN sizeof_nfgenmsg \<le> B"
    and "data_size < 9223372036854775808"
  shows "(B < command_size data_size \<longrightarrow>
            nfqueue_send_command B nl q t a d data_size st =
              (BUF_TOO_SHORT, st\<lparr>errno := ENOBUFS\<rparr>))
       \<and> (B < set_params_size maxlen flags \<longrightarrow>
            nfqueue_set_params B nl q mode rng maxlen flags st =
              (BUF_TOO_SHORT, st\<lparr>errno := ENOBUFS\<rparr>))
       \<and> (B < verdict_connmark_size connmark \<longrightarrow>
            nfqueue_send_verdict_connmark B nl q pid v connmark st =
              (BUF_TOO_SHORT, st\<lparr>errno := ENOBUFS\<rparr>))"
proof -
  from assms(1) have b: "\<not> B < 20"
    by (simp add: MNL_NLMSG_HDRLEN_def sizeof_nfgenmsg_def MNL_ALIGN_def)
  have c1: "nfqueue_send_command B nl q t a d data_size st =
      (BUF_TOO_SHORT, st\<lparr>errno := ENOBUFS\<rparr>)"
    if a: "B < command_size data_size"
    unfolding nfqueue_send_command_short [OF assms(2) a] using b by simp
  have c2: "nfqueue_set_params B nl q mode rng maxlen flags st =
      (BUF_TOO_SHORT, st\<lparr>errno := ENOBUFS\<rparr>)"
    if a: "B < set_params_size maxlen flags"
    unfolding nfqueue_set_params_short [OF a] using b by simp
  have c3: "nfqueue_send_verdict_connmark B nl q pid v connmark st =
      (BUF_TOO_SHORT, st\<lparr>errno := ENOBUFS\<rparr>)"
    if a: "B < verdict_connmark_size connmark"
    unfolding nfqueue_send_verdict_connmark_short [OF a] using b by simp
  from c1 c2 c3 show ?thesis by blast
qed

text \<open>
  A buffer of 40 bytes is too short for a command with 20 bytes of data (44 bytes), for
  parameters with a queue length and flags (56 bytes) and for a verdict with a mark
  (44 bytes): each is refused with \<open>-42\<close> and \<open>errno = 105\<close>, and nothing is sent.
\<close>

theorem encoding_out_of_space_witness:
  "nfqueue_send_command 40 (\<lambda>_. None) 5 NFQNL_MSG_VERDICT NFQA_VERDICT_HDR
     (replicate 20 0) 20 \<lparr>sent = [], errno = 0\<rparr> = (- 42, \<lparr>sent = [], errno = 105\<rparr>)
   \<and> nfqueue_set_params 40 (\<lambda>_. None) 5 NFQNL_COPY_PACKET 65535 1024 NFQA_CFG_F_CONNTRACK
       \<lparr>sent = [], errno = 0\<rparr> = (- 42, \<lparr>sent = [], errno = 105\<rparr>)
   \<and> nfqueue_send_verdict_connmark 40 (\<lambda>_. None) 5 7 1 5 \<lparr>sent = [], errno = 0\<rparr> =
       (- 42, \<lparr>sent = [], errno = 105\<rparr>)"
proof -
  have h: "MNL_NLMSG_HDRLEN + MNL_ALIGN sizeof_nfgenmsg \<le> 40" "(20::nat) < 9223372036854775808"
    by (simp_all add: MNL_NLMSG_HDRLEN_def sizeof_nfgenmsg_def MNL_ALIGN_def)
  have s: "40 < command_size 20" "40 < set_params_size 1024 NFQA_CFG_F_CONNTRACK"
    "40 < verdict_connmark_size 5"
    by (simp_all add: command_size_def set_params_size_def verdict_connmark_size_def
          MNL_ALIGN_def NFQA_CFG_F_CONNTRACK_def)
  have c: "(BUF_TOO_SHORT, \<lparr>sent = [], errno = 0\<rparr>\<lparr>errno := ENOBUFS\<rparr>) =
      (- 42, \<lparr>sent = [], errno = 105\<rparr>)"
    by (simp add: BUF_TOO_SHORT_def ENOBUFS_def)
  from encoding_out_of_space [OF h, where nl = "\<lambda>_. None" and q = 5 and t = NFQNL_MSG_VERDICT
      and a = NFQA_VERDICT_HDR and d = "replicate 20 0" and st = "\<lparr>sent = [], errno = 0\<rparr>"
      and mode = NFQNL_COPY_PACKET and rng = 65535 and maxlen = 1024
      and flags = NFQA_CFG_F_CONNTRACK and pid = 7 and v = 1 and connmark = 5] s
  show ?thesis unfolding c by blast
qed

end
